theory Spec2Isabelle
  imports Main
begin

section \<open>Values shared by both versions of main.js\<close>

text \<open>
  The source file holds two versions of the chat adapter. The first drives a plain
  DOM page (\<open>chatContainer\<close>, \<open>inputField\<close>, \<open>sendButton\<close>); the second drives a
  DevExtreme \<open>dxChat\<close> widget backed by a data source. Definitions of the first version
  carry the suffix \<open>_v1\<close>, those of the second the suffix \<open>_v2\<close>, where both versions
  declare the same name.

  Strings are \<open>string\<close>; a \<open>char\<close> stands for one code unit below 256.
\<close>

text \<open>An identifier as JavaScript compares it with \<open>===\<close>: a number, a string or \<open>null\<close>.\<close>

datatype jsid = IdNum int | IdStr string | IdNull

record account =
  acc_id :: jsid
  acc_name :: string

text \<open>
  A Direct Line activity. \<open>from\<close> and \<open>type\<close> are always present; \<open>text\<close> is optional
  (\<open>None\<close> is \<open>undefined\<close>).
\<close>

record activity =
  act_from :: account
  act_type :: string
  act_text :: "string option"

text \<open>A thrown value: an error object with its \<open>name\<close> and \<open>message\<close>.\<close>

datatype js_error = JsError string string

text \<open>\<open>String(error)\<close>, as \<open>Error.prototype.toString\<close> computes it.\<close>

fun error_to_string :: "js_error \<Rightarrow> string" where
  "error_to_string (JsError name msg) =
     (if name = [] then msg else if msg = [] then name else name @ '': '' @ msg)"

text \<open>The console: one entry per call, with the level and the arguments.\<close>

datatype level = Log | Warn | Error

datatype log_arg = LStr string | LNum int | LErr js_error

type_synonym log_entry = "level \<times> log_arg list"

text \<open>A parsed JSON value; an object is the list of its properties.\<close>

datatype json = JNull | JBool bool | JNum int | JStr string
  | JArr "json list" | JObj "(string \<times> json) list"

text \<open>
  The calls the program makes on its collaborators, in the order it makes them:
  \<open>fetch\<close> (URL, method, headers), the \<open>DirectLine\<close> constructor (token, domain), the
  two \<open>subscribe\<close> calls, \<open>addEventListener\<close> (id of the element, event type),
  \<open>postActivity\<close>, and, in the second version, \<open>loadMessages\<close>, the constructors of
  the custom store and of the data source, and the creation of the \<open>dxChat\<close> widget with
  its options (among them \<open>onMessageEntered\<close>).
\<close>

datatype effect =
    Fetch string string "(string \<times> string) list"
  | NewDirectLine "json option" string
  | SubscribeActivity
  | SubscribeConnectionStatus
  | AddEventListener string string
  | PostActivity activity
  | LoadMessages
  | NewCustomStore
  | NewDataSource
  | NewChat

record world =
  console :: "log_entry list"
  effects :: "effect list"

definition console_log :: "level \<Rightarrow> log_arg list \<Rightarrow> 'a world_scheme \<Rightarrow> 'a world_scheme" where
  "console_log lvl args w = w\<lparr>console := console w @ [(lvl, args)]\<rparr>"

definition perform :: "effect \<Rightarrow> 'a world_scheme \<Rightarrow> 'a world_scheme" where
  "perform e w = w\<lparr>effects := effects w @ [e]\<rparr>"

definition DIRECT_LINE_DOMAIN :: string where
  "DIRECT_LINE_DOMAIN = ''https://europe.directline.botframework.com/v3/directline''"

section \<open>Token acquisition\<close>

text \<open>
  What \<open>fetch\<close> and \<open>response.json()\<close> deliver is an input of the model: \<open>fetch\<close>
  rejects with an error or resolves with a response, whose \<open>json()\<close> in turn rejects or
  resolves with the parsed body.
\<close>

record response =
  resp_ok :: bool
  resp_status :: nat
  resp_json :: "js_error + json"

type_synonym fetch_outcome = "js_error + response"

text \<open>\<open>String(n)\<close> for a natural number: its decimal digits.\<close>

fun string_of_nat :: "nat \<Rightarrow> string" where
  "string_of_nat n =
     (if n < 10 then [char_of (48 + n)]
      else string_of_nat (n div 10) @ [char_of (48 + n mod 10)])"

declare string_of_nat.simps [simp del]

text \<open>
  \<open>const { token } = body\<close>: destructuring \<open>null\<close> throws a TypeError; an object gives
  its property or \<open>undefined\<close> (\<open>None\<close>); any other JSON value has no such property.
\<close>

fun destructure_token :: "json \<Rightarrow> js_error + json option" where
  "destructure_token JNull =
     Inl (JsError ''TypeError'' ''Cannot destructure property 'token' of null'')"
| "destructure_token (JObj kvs) = Inr (map_of kvs ''token'')"
| "destructure_token _ = Inr None"

text \<open>The request that both versions send.\<close>

definition token_request :: "string \<Rightarrow> effect" where
  "token_request secret =
     Fetch (DIRECT_LINE_DOMAIN @ ''/tokens/generate'') ''POST''
       [(''Content-Type'', ''application/json''), (''Authorization'', ''Bearer '' @ secret)]"

text \<open>
  The body of the \<open>try\<close> block up to the destructuring, common to both versions.
\<close>

definition read_token :: "fetch_outcome \<Rightarrow> js_error + json option" where
  "read_token out =
     (case out of
        Inl e \<Rightarrow> Inl e
      | Inr r \<Rightarrow>
          if \<not> resp_ok r
          then Inl (JsError ''Error'' (''Failed to fetch token: '' @ string_of_nat (resp_status r)))
          else (case resp_json r of Inl e \<Rightarrow> Inl e | Inr j \<Rightarrow> destructure_token j))"

definition fetchDirectLineToken_v1 ::
  "string \<Rightarrow> fetch_outcome \<Rightarrow> 'a world_scheme \<Rightarrow> (js_error + json option) \<times> 'a world_scheme" where
  "fetchDirectLineToken_v1 secret out w =
     (let w1 = perform (token_request secret) w in
      case read_token out of
        Inr token \<Rightarrow> (Inr token, w1)
      | Inl error \<Rightarrow>
          (Inl error,
           console_log Error [LStr ''Error fetching Direct Line token:'', LErr error] w1))"

definition fetchDirectLineToken_v2 ::
  "string \<Rightarrow> fetch_outcome \<Rightarrow> 'a world_scheme \<Rightarrow> (js_error + json option) \<times> 'a world_scheme" where
  "fetchDirectLineToken_v2 secret out w =
     (let w1 = perform (token_request secret) w in
      case read_token out of
        Inr token \<Rightarrow> (Inr token, console_log Log [LStr ''Token received successfully!''] w1)
      | Inl error \<Rightarrow>
          (Inl error,
           console_log Error [LStr ''Error fetching Direct Line token:'', LErr error] w1))"

section \<open>Connection status\<close>

text \<open>The subscriber of \<open>connectionStatus$\<close> in the first version: a \<open>switch\<close> with a default.\<close>

definition connection_status_v1 :: "int \<Rightarrow> 'a world_scheme \<Rightarrow> (js_error option) \<times> 'a world_scheme" where
  "connection_status_v1 status w =
     (let w1 = console_log Log [LStr ''Connection status:'', LNum status] w in
      (None,
       if status = 0 then console_log Warn [LStr ''DirectLine connection is uninitialized.''] w1
       else if status = 1 then console_log Log [LStr ''DirectLine is connecting...''] w1
       else if status = 2 then console_log Log [LStr ''DirectLine connection is online!''] w1
       else if status = 3 then console_log Error [LStr ''DirectLine token has expired.''] w1
       else if status = 4 then
         console_log Error
           [LStr ''DirectLine failed to connect. Please check your token or domain.''] w1
       else if status = 5 then console_log Warn [LStr ''DirectLine connection has ended.''] w1
       else console_log Warn [LStr ''Unknown DirectLine connection status:'', LNum status] w1))"

text \<open>
  The table \<open>connectionStatusHandlers\<close> of the second version: keys 0 to 5, each a function
  that writes one console entry.
\<close>

definition connectionStatusHandlers :: "(int \<times> log_entry) list" where
  "connectionStatusHandlers =
     [(0, (Warn, [LStr ''DirectLine connection is uninitialized.''])),
      (1, (Log, [LStr ''DirectLine is connecting...''])),
      (2, (Log, [LStr ''DirectLine connection is online!''])),
      (3, (Error, [LStr ''DirectLine token has expired.''])),
      (4, (Error, [LStr ''DirectLine failed to connect. Please check your token or domain.''])),
      (5, (Warn, [LStr ''DirectLine connection has ended.'']))]"

text \<open>
  \<open>handleConnectionStatus\<close>: the lookup gives \<open>undefined\<close> for a key that is not in the
  table, and calling \<open>undefined\<close> throws a TypeError.
\<close>

definition handleConnectionStatus :: "int \<Rightarrow> 'a world_scheme \<Rightarrow> (js_error option) \<times> 'a world_scheme" where
  "handleConnectionStatus status w =
     (case map_of connectionStatusHandlers status of
        None \<Rightarrow> (Some (JsError ''TypeError'' ''handler is not a function''), w)
      | Some (lvl, args) \<Rightarrow> (None, console_log lvl args w))"

section \<open>First version: the plain page\<close>

text \<open>
  The page: the children of \<open>chatContainer\<close> in document order, whether the container is
  scrolled to its end, and the value of \<open>inputField\<close>.
\<close>

record msg_div =
  div_className :: string
  div_textContent :: string

record page = world +
  chat :: "msg_div list"
  scrolled_to_end :: bool
  input_value :: string

text \<open>\<open>user.id\<close> is \<open>Date.now()\<close> at load time, a number; \<open>t0\<close> is that reading.\<close>

definition user_v1 :: "int \<Rightarrow> account" where
  "user_v1 t0 = \<lparr>acc_id = IdNum t0, acc_name = ''You''\<rparr>"

text \<open>
  \<open>appendMessage\<close>. Assigning \<open>undefined\<close> to \<open>textContent\<close> leaves the element without
  text.
\<close>

definition appendMessage :: "string option \<Rightarrow> string \<Rightarrow> page \<Rightarrow> page" where
  "appendMessage txt className p =
     (let messageDiv = \<lparr>div_className = className,
                          div_textContent = (case txt of None \<Rightarrow> [] | Some t \<Rightarrow> t)\<rparr>
      in p\<lparr>chat := chat p @ [messageDiv], scrolled_to_end := True\<rparr>)"

text \<open>The two callbacks of \<open>directLine.activity$.subscribe\<close>.\<close>

definition on_activity_v1 :: "int \<Rightarrow> activity \<Rightarrow> page \<Rightarrow> page" where
  "on_activity_v1 t0 a p =
     (if act_type a = ''message'' \<and> acc_id (act_from a) \<noteq> acc_id (user_v1 t0)
      then appendMessage (act_text a) ''bot'' p
      else p)"

definition on_activity_error_v1 :: "js_error \<Rightarrow> page \<Rightarrow> page" where
  "on_activity_error_v1 error p =
     appendMessage (Some ''Error receiving messages from the bot.'') ''bot''
       (console_log Error [LStr ''Error receiving activities:'', LErr error] p)"

text \<open>
  \<open>String.prototype.trim\<close>: white space and line terminators are removed from both ends.
  Below 256 these are tab, line feed, vertical tab, form feed, carriage return, space and
  the no-break space.
\<close>

definition is_space :: "char \<Rightarrow> bool" where
  "is_space c = ((of_char c :: nat) \<in> {9, 10, 11, 12, 13, 32, 160})"

definition trim :: "string \<Rightarrow> string" where
  "trim s = rev (dropWhile is_space (rev (dropWhile is_space s)))"

definition handleSendMessage :: "int \<Rightarrow> page \<Rightarrow> page" where
  "handleSendMessage t0 p =
     (let message = trim (input_value p) in
      if message = [] then p
      else
        let p1 = appendMessage (Some message) ''user'' p;
            p2 = perform (PostActivity \<lparr>act_from = user_v1 t0, act_type = ''message'',
                                         act_text = Some message\<rparr>) p1
        in p2\<lparr>input_value := []\<rparr>)"

text \<open>The two callbacks given to the \<open>subscribe\<close> of \<open>postActivity\<close>.\<close>

definition on_sent_v1 :: "page \<Rightarrow> page" where
  "on_sent_v1 p = console_log Log [LStr ''Message sent successfully''] p"

definition on_send_error_v1 :: "js_error \<Rightarrow> page \<Rightarrow> page" where
  "on_send_error_v1 error p = console_log Error [LStr ''Error sending message:'', LErr error] p"

text \<open>
  \<open>initChat\<close> and \<open>main\<close>. A rejected \<open>fetchDirectLineToken\<close> leaves \<open>initChat\<close> at its
  first line; \<open>main\<close> catches it.
\<close>

definition initChat :: "string \<Rightarrow> fetch_outcome \<Rightarrow> page \<Rightarrow> (js_error + json option) \<times> page" where
  "initChat secret out p =
     (case fetchDirectLineToken_v1 secret out p of
        (Inl error, p1) \<Rightarrow> (Inl error, p1)
      | (Inr token, p1) \<Rightarrow>
          (Inr token,
           perform SubscribeConnectionStatus
             (perform SubscribeActivity
               (perform (NewDirectLine token DIRECT_LINE_DOMAIN) p1))))"

definition main :: "string \<Rightarrow> fetch_outcome \<Rightarrow> page \<Rightarrow> page" where
  "main secret out p =
     (case initChat secret out p of
        (Inr directLine, p1) \<Rightarrow>
          perform (AddEventListener ''input'' ''keypress'')
            (perform (AddEventListener ''send'' ''click'') p1)
      | (Inl error, p1) \<Rightarrow>
          appendMessage (Some ''Error initializing chat. Please try again later.'') ''bot''
            (console_log Error [LStr ''Error initializing chat:'', LErr error] p1))"

text \<open>
  What can happen on the page once \<open>main\<close> has wired it: a click on the button, a key
  press in the field, an activity or an error on \<open>activity$\<close>, a connection status, and
  the outcome of a \<open>postActivity\<close>.
\<close>

datatype event_v1 =
    Click
  | Keypress string
  | Activity activity
  | ActivityError js_error
  | ConnectionStatus int
  | Sent
  | SendError js_error

fun step_v1 :: "int \<Rightarrow> event_v1 \<Rightarrow> page \<Rightarrow> page" where
  "step_v1 t0 Click p = handleSendMessage t0 p"
| "step_v1 t0 (Keypress key) p = (if key = ''Enter'' then handleSendMessage t0 p else p)"
| "step_v1 t0 (Activity a) p = on_activity_v1 t0 a p"
| "step_v1 t0 (ActivityError e) p = on_activity_error_v1 e p"
| "step_v1 t0 (ConnectionStatus n) p = snd (connection_status_v1 n p)"
| "step_v1 t0 Sent p = on_sent_v1 p"
| "step_v1 t0 (SendError e) p = on_send_error_v1 e p"

section \<open>Second version: the chat widget\<close>

definition CHAT_DISABLED_CLASS :: string where
  "CHAT_DISABLED_CLASS = ''dx-chat-disabled''"

definition user_v2 :: account where
  "user_v2 = \<lparr>acc_id = IdStr ''user'', acc_name = ''You''\<rparr>"

definition assistant :: account where
  "assistant = \<lparr>acc_id = IdNull, acc_name = ''Virtual Assistant''\<rparr>"

record message =
  msg_id :: int
  msg_timestamp :: int
  msg_author :: account
  msg_text :: "string option"

text \<open>
  The message that \<open>dxChat\<close> hands to \<open>onMessageEntered\<close>; it need not carry an \<open>id\<close>.
\<close>

record entered_message =
  em_id :: "int option"
  em_timestamp :: int
  em_author :: account
  em_text :: string

text \<open>
  \<open>dataSource.store().push(changes)\<close> takes a list of changes; the program only pushes
  changes of type \<open>insert\<close>.
\<close>

datatype change = Insert message

text \<open>
  The widget:
  \<^item> \<open>store\<close>: the array behind the custom store (\<open>const store = []\<close>);
  \<^item> \<open>items\<close>: the items the data source holds, which are the messages the chat shows;
  \<^item> \<open>pushed\<close>: the change lists handed to \<open>dataSource.store().push\<close>, in order;
  \<^item> \<open>classes\<close>: the CSS classes of \<open>instance.element()\<close>;
  \<^item> \<open>textArea\<close>: the element \<open>instance._messageBox._textArea.element()\<close>, \<open>None\<close>
    when there is none, otherwise the methods called on it so far;
  \<^item> \<open>focused\<close>: whether the \<open><textarea>\<close> inside that element has the focus;
  \<^item> \<open>typingUsers\<close>: the option of that name.
\<close>

record widget = world +
  store :: "message list"
  items :: "message list"
  pushed :: "change list list"
  classes :: "string set"
  textArea :: "string list option"
  focused :: bool
  typingUsers :: "account list"

text \<open>
  \<open>createCustomStore\<close>: \<open>load\<close> resolves with a copy of the array, \<open>insert\<close> pushes the
  message onto the array when its timer fires.
\<close>

definition custom_store_load :: "message list \<Rightarrow> message list" where
  "custom_store_load st = st"


text \<open>
  \<open>dataSource.store().push(changes)\<close>. A push does not go through the \<open>insert\<close> of the
  custom store and leaves the array alone: the data source takes the changes into its own
  items. The store has \<open>key: 'id'\<close>: an insert whose id one of the items already has is
  dropped, any other is put after the items held.
\<close>

fun apply_change :: "message list \<Rightarrow> change \<Rightarrow> message list" where
  "apply_change its (Insert m) =
     (if msg_id m \<in> set (map msg_id its) then its else its @ [m])"

definition push :: "change list \<Rightarrow> widget \<Rightarrow> widget" where
  "push changes w =
     w\<lparr>items := foldl apply_change (items w) changes, pushed := pushed w @ [changes]\<rparr>"

text \<open>
  \<open>renderAssistantMessage\<close>; \<open>now\<close> is the clock reading of \<open>Date.now()\<close> and
  \<open>new Date()\<close>.
\<close>

definition renderAssistantMessage :: "int \<Rightarrow> string option \<Rightarrow> widget \<Rightarrow> widget" where
  "renderAssistantMessage now txt w =
     (let message = \<lparr>msg_id = now, msg_timestamp = now, msg_author = assistant, msg_text = txt\<rparr>
      in push [Insert message] w)"

text \<open>
  \<open>toggleDisabledState\<close>: \<open>toggleClass(c, true)\<close> adds the class, \<open>toggleClass(c, false)\<close>
  removes it. \<open>textArea\<close> is the element of the text area component, not the
  \<open><textarea>\<close> inside it: \<open>blur()\<close> or \<open>focus()\<close> is called on that element (nothing
  is called when there is none), and the call does not move the focus.
\<close>

definition toggleDisabledState :: "bool \<Rightarrow> widget \<Rightarrow> widget" where
  "toggleDisabledState disabled w =
     (let w1 = w\<lparr>classes := (if disabled then insert CHAT_DISABLED_CLASS (classes w)
                               else classes w - {CHAT_DISABLED_CLASS})\<rparr>
      in w1\<lparr>textArea :=
              map_option (\<lambda>calls. calls @ [if disabled then ''blur'' else ''focus''])
                (textArea w1)\<rparr>)"

text \<open>\<open>handleMessage\<close> and \<open>handleError\<close> of \<open>subscribeToChatActivities\<close>.\<close>

definition handleMessage :: "int \<Rightarrow> activity \<Rightarrow> widget \<Rightarrow> widget" where
  "handleMessage now a w =
     (let fromAssistant = (acc_id (act_from a) \<noteq> acc_id user_v2) in
      if act_type a = ''message'' \<and> fromAssistant
      then
        let w1 = w\<lparr>typingUsers := []\<rparr>;
            w2 = renderAssistantMessage now (act_text a) w1
        in toggleDisabledState False w2
      else w)"

definition handleError :: "int \<Rightarrow> js_error \<Rightarrow> widget \<Rightarrow> widget" where
  "handleError now error w =
     renderAssistantMessage now (Some ''Error receiving messages from the assistant.'')
       (console_log Error [LStr ''Error receiving activities:'', LErr error] w)"

text \<open>\<open>postMessage\<close>, up to the call of \<open>subscribe\<close>, and the two callbacks it subscribes.\<close>

definition postMessage :: "entered_message \<Rightarrow> widget \<Rightarrow> widget" where
  "postMessage m w =
     (let w1 = toggleDisabledState True w;
          w2 = w1\<lparr>typingUsers := [assistant]\<rparr>;
          a = \<lparr>act_from = user_v2, act_type = ''message'', act_text = Some (em_text m)\<rparr>
      in perform (PostActivity a) w2)"

definition on_sent_v2 :: "widget \<Rightarrow> widget" where
  "on_sent_v2 w = console_log Log [LStr ''Message sent successfully''] w"

definition on_send_error_v2 :: "int \<Rightarrow> js_error \<Rightarrow> widget \<Rightarrow> widget" where
  "on_send_error_v2 now error w =
     (let w1 = console_log Error [LStr ''Error sending message:'', LErr error] w;
          w2 = w1\<lparr>typingUsers := []\<rparr>;
          w3 = renderAssistantMessage now
                 (Some (''Error sending message: '' @ error_to_string error)) w2
      in toggleDisabledState False w3)"

text \<open>
  \<open>onMessageEntered\<close>: in \<open>{ id: Date.now(), ...message }\<close> an \<open>id\<close> of the message
  itself wins over the clock.
\<close>

definition onMessageEntered :: "int \<Rightarrow> entered_message \<Rightarrow> widget \<Rightarrow> widget" where
  "onMessageEntered now m w =
     (let stored = \<lparr>msg_id = (case em_id m of None \<Rightarrow> now | Some i \<Rightarrow> i),
                     msg_timestamp = em_timestamp m, msg_author = em_author m,
                     msg_text = Some (em_text m)\<rparr>
      in postMessage m (push [Insert stored] w))"

text \<open>\<open>initChatService\<close> and the start-up handler \<open>$(async () => ...)\<close>.\<close>

definition initChatService :: "string \<Rightarrow> fetch_outcome \<Rightarrow> widget \<Rightarrow> (js_error + json option) \<times> widget" where
  "initChatService secret out w =
     (case fetchDirectLineToken_v2 secret out w of
        (Inl error, w1) \<Rightarrow> (Inl error, w1)
      | (Inr token, w1) \<Rightarrow> (Inr token, perform (NewDirectLine token DIRECT_LINE_DOMAIN) w1))"

definition start_v2 :: "string \<Rightarrow> fetch_outcome \<Rightarrow> widget \<Rightarrow> widget" where
  "start_v2 secret out w =
     (let w1 = perform NewDataSource (perform NewCustomStore (perform LoadMessages w)) in
      case initChatService secret out w1 of
        (Inr chatService, w2) \<Rightarrow>
          perform SubscribeConnectionStatus (perform SubscribeActivity (perform NewChat w2))
      | (Inl error, w2) \<Rightarrow>
          console_log Error [LStr ''Failed to initialize chat:'', LErr error] w2)"

text \<open>
  The message template, the copy button and the widget's own rendering take no part in the
  message flow and are not modelled, except for \<open>convertToHtml\<close> below.
\<close>

text \<open>
  What can happen to the widget once it runs. An exception thrown inside the subscriber of
  \<open>connectionStatus$\<close> leaves the widget as it was.
\<close>

datatype event_v2 =
    MessageEntered entered_message
  | ActivityReceived activity
  | ActivityFailed js_error
  | StatusChanged int
  | PostSucceeded
  | PostFailed js_error

fun step_v2 :: "int \<Rightarrow> event_v2 \<Rightarrow> widget \<Rightarrow> widget" where
  "step_v2 now (MessageEntered m) w = onMessageEntered now m w"
| "step_v2 now (ActivityReceived a) w = handleMessage now a w"
| "step_v2 now (ActivityFailed e) w = handleError now e w"
| "step_v2 now (StatusChanged n) w = snd (handleConnectionStatus n w)"
| "step_v2 now PostSucceeded w = on_sent_v2 w"
| "step_v2 now (PostFailed e) w = on_send_error_v2 now e w"

section \<open>Rendering: markdown and e-mail links\<close>

text \<open>
  \<open>EMAIL_REGEX\<close> is a sequence of character classes, each with a repetition count. An
  atom \<open>Rep cls lo hi\<close> matches between \<open>lo\<close> and \<open>hi\<close> characters of the class
  (\<open>hi = None\<close>: no upper bound), taking as many as it can first.
\<close>

datatype atom = Rep "char \<Rightarrow> bool" nat "nat option"

definition is_alpha :: "char \<Rightarrow> bool" where
  "is_alpha c = (let n = (of_char c :: nat) in (97 \<le> n \<and> n \<le> 122) \<or> (65 \<le> n \<and> n \<le> 90))"

definition is_digit :: "char \<Rightarrow> bool" where
  "is_digit c = (let n = (of_char c :: nat) in 48 \<le> n \<and> n \<le> 57)"

text \<open>\<open>[a-zA-Z0-9._%+-]\<close>, \<open>[a-zA-Z0-9.-]\<close> and a single character.\<close>

definition local_class :: "char \<Rightarrow> bool" where
  "local_class c = (is_alpha c \<or> is_digit c \<or> c \<in> set ''._%+-'')"

definition domain_class :: "char \<Rightarrow> bool" where
  "domain_class c = (is_alpha c \<or> is_digit c \<or> c \<in> set ''.-'')"

definition is_char :: "char \<Rightarrow> char \<Rightarrow> bool" where
  "is_char d c = (c = d)"

definition EMAIL_REGEX :: "atom list" where
  "EMAIL_REGEX =
     [Rep local_class 1 None,
      Rep (is_char CHR ''@'') 1 (Some 1),
      Rep domain_class 1 None,
      Rep (is_char CHR ''.'') 1 (Some 1),
      Rep is_alpha 2 None]"

text \<open>
  The backtracking matcher. \<open>greedy cls hi s\<close> is the largest count the atom can take at
  the start of \<open>s\<close>; \<open>try_down f lo n\<close> tries the counts \<open>n\<close>, \<open>n - 1\<close>, ... down to
  \<open>lo\<close> and keeps the first for which the rest of the pattern matches. \<open>match_seq\<close> gives
  the length of the match that starts at the beginning of \<open>s\<close>, if there is one.
\<close>

definition greedy :: "(char \<Rightarrow> bool) \<Rightarrow> nat option \<Rightarrow> string \<Rightarrow> nat" where
  "greedy cls hi s =
     (let run = length (takeWhile cls s) in case hi of None \<Rightarrow> run | Some m \<Rightarrow> min m run)"

primrec try_down :: "(nat \<Rightarrow> nat option) \<Rightarrow> nat \<Rightarrow> nat \<Rightarrow> nat option" where
  "try_down f lo 0 = (if lo = 0 then f 0 else None)"
| "try_down f lo (Suc n) =
     (if Suc n < lo then None
      else (case f (Suc n) of Some r \<Rightarrow> Some r | None \<Rightarrow> try_down f lo n))"

primrec match_seq :: "atom list \<Rightarrow> string \<Rightarrow> nat option" where
  "match_seq [] s = Some 0"
| "match_seq (a # as) s =
     (case a of Rep cls lo hi \<Rightarrow>
        try_down (\<lambda>n. map_option (\<lambda>m. n + m) (match_seq as (drop n s))) lo (greedy cls hi s))"

text \<open>
  \<open>string.replace(regex, f)\<close> with a global regex: matches are looked for from left to
  right; a match is replaced by \<open>f\<close> of the matched text and the search goes on after it;
  where nothing matches the character is kept. After an empty match the search moves on
  by one character.
\<close>

fun replace_all :: "atom list \<Rightarrow> (string \<Rightarrow> string) \<Rightarrow> string \<Rightarrow> string" where
  "replace_all re f [] = (case match_seq re [] of None \<Rightarrow> [] | Some _ \<Rightarrow> f [])"
| "replace_all re f (c # cs) =
     (case match_seq re (c # cs) of
        None \<Rightarrow> c # replace_all re f cs
      | Some 0 \<Rightarrow> f [] @ c # replace_all re f cs
      | Some (Suc n) \<Rightarrow> f (take (Suc n) (c # cs)) @ replace_all re f (drop n cs))"

definition anchor :: "string \<Rightarrow> string" where
  \<open>anchor email = ''<a href="mailto:'' @ email @ ''">'' @ email @ ''</a>''\<close>

definition emailToLink :: "string \<Rightarrow> string" where
  "emailToLink s = replace_all EMAIL_REGEX anchor s"

text \<open>
  \<open>convertToHtml\<close>. The markdown processor (\<open>unified\<close> with \<open>remark-parse\<close>,
  \<open>remark-rehype\<close> and \<open>rehype-stringify\<close>) is a parameter.
\<close>

definition convertToHtml :: "(string \<Rightarrow> string) \<Rightarrow> string \<Rightarrow> string" where
  "convertToHtml markdownProcessor v =
     (let precessedValue = markdownProcessor v;
          valueWithEmailLinks = emailToLink precessedValue
      in valueWithEmailLinks)"

section \<open>Notions used to state the properties\<close>

text \<open>
  The e-mail pattern read as a description of a text: a string matches a sequence of
  atoms when it splits into consecutive pieces, one per atom, each made of characters of
  the atom's class and of a length within the atom's bounds.
\<close>

primrec matches :: "atom list \<Rightarrow> string \<Rightarrow> bool" where
  "matches [] s = (s = [])"
| "matches (a # as) s =
     (case a of Rep cls lo hi \<Rightarrow>
        (\<exists>n \<in> {lo..length s}.
           (case hi of None \<Rightarrow> True | Some m \<Rightarrow> n \<le> m) \<and>
           list_all cls (take n s) \<and> matches as (drop n s)))"

text \<open>No match of the pattern starts at a character of \<open>pre\<close> when \<open>post\<close> follows it.\<close>

fun quiet :: "atom list \<Rightarrow> string \<Rightarrow> string \<Rightarrow> bool" where
  "quiet re [] post = True"
| "quiet re (c # cs) post = (match_seq re (c # cs @ post) = None \<and> quiet re cs post)"

text \<open>\<open>x\<close> occurs in \<open>xs\<close>, and every \<open>y\<close> in \<open>xs\<close> comes after the first \<open>x\<close>.\<close>

definition precedes :: "'a \<Rightarrow> 'a \<Rightarrow> 'a list \<Rightarrow> bool" where
  "precedes x y xs = (x \<in> set xs \<and> y \<notin> set (takeWhile (\<lambda>z. z \<noteq> x) xs))"

text \<open>The number that a string of decimal digits denotes.\<close>

definition digit_value :: "char \<Rightarrow> nat" where
  "digit_value c = of_char c - 48"

definition decimal_value :: "string \<Rightarrow> nat" where
  "decimal_value s = foldl (\<lambda>a c. 10 * a + digit_value c) 0 s"

text \<open>An activity that \<open>handleMessage\<close> takes for a message of the assistant.\<close>

definition assistant_message :: "activity \<Rightarrow> bool" where
  "assistant_message a = (act_type a = ''message'' \<and> acc_id (act_from a) \<noteq> IdStr ''user'')"

text \<open>A run of the widget: each event comes with the clock reading at its handling.\<close>

fun run_v2 :: "(int \<times> event_v2) list \<Rightarrow> widget \<Rightarrow> widget" where
  "run_v2 [] w = w"
| "run_v2 ((now, ev) # evs) w = run_v2 evs (step_v2 now ev w)"

text \<open>
  The events after which \<open>toggleDisabledState\<close> has been called: \<open>Some True\<close> when it
  was called to disable, \<open>Some False\<close> when it was called to enable.
\<close>

fun toggles :: "event_v2 \<Rightarrow> bool option" where
  "toggles (MessageEntered m) = Some True"
| "toggles (ActivityReceived a) = (if assistant_message a then Some False else None)"
| "toggles (PostFailed e) = Some False"
| "toggles _ = None"

fun last_toggle :: "(int \<times> event_v2) list \<Rightarrow> bool option" where
  "last_toggle [] = None"
| "last_toggle ((now, ev) # evs) =
     (case last_toggle evs of Some b \<Rightarrow> Some b | None \<Rightarrow> toggles ev)"

section \<open>Connection status: the table against the switch\<close>

lemma map_of_handlers:
  "map_of connectionStatusHandlers status =
     (if status = 0 then Some (Warn, [LStr ''DirectLine connection is uninitialized.''])
      else if status = 1 then Some (Log, [LStr ''DirectLine is connecting...''])
      else if status = 2 then Some (Log, [LStr ''DirectLine connection is online!''])
      else if status = 3 then Some (Error, [LStr ''DirectLine token has expired.''])
      else if status = 4 then
        Some (Error, [LStr ''DirectLine failed to connect. Please check your token or domain.''])
      else if status = 5 then Some (Warn, [LStr ''DirectLine connection has ended.''])
      else None)"
  by (simp add: connectionStatusHandlers_def)

lemma status_cases:
  "0 \<le> (status::int) \<Longrightarrow> status \<le> 5 \<Longrightarrow>
     status = 0 \<or> status = 1 \<or> status = 2 \<or> status = 3 \<or> status = 4 \<or> status = 5"
  by arith

text \<open>
  C8. In the second version \<open>handleConnectionStatus\<close> returns normally exactly for the
  statuses 0 to 5, where it writes the one console entry of the table, at the levels warn,
  log, log, error, error, warn; for every other status it throws and writes nothing. The
  subscriber of the first version never throws, and answers a status outside 0 to 5 with
  the default warning (after its unconditional log line).
\<close>

theorem handleConnectionStatus_defined_on_0_to_5:
  "(0 \<le> status \<and> status \<le> 5 \<longrightarrow>
      handleConnectionStatus status w =
        (None, w\<lparr>console := console w @ [snd (connectionStatusHandlers ! nat status)]\<rparr>)
      \<and> fst (snd (connectionStatusHandlers ! nat status)) =
          [Warn, Log, Log, Error, Error, Warn] ! nat status)
   \<and> (\<not> (0 \<le> status \<and> status \<le> 5) \<longrightarrow>
        (\<exists>e. handleConnectionStatus status w = (Some e, w)))
   \<and> fst (connection_status_v1 status w) = None
   \<and> (\<not> (0 \<le> status \<and> status \<le> 5) \<longrightarrow>
        snd (connection_status_v1 status w) =
          console_log Warn [LStr ''Unknown DirectLine connection status:'', LNum status]
            (console_log Log [LStr ''Connection status:'', LNum status] w))"
proof (intro conjI impI)
  assume "0 \<le> status \<and> status \<le> 5"
  then have c: "status = 0 \<or> status = 1 \<or> status = 2 \<or> status = 3 \<or> status = 4 \<or> status = 5"
    by (simp add: status_cases)
  then show "handleConnectionStatus status w =
        (None, w\<lparr>console := console w @ [snd (connectionStatusHandlers ! nat status)]\<rparr>)"
    by (auto simp: handleConnectionStatus_def console_log_def connectionStatusHandlers_def)
  from c show "fst (snd (connectionStatusHandlers ! nat status)) =
          [Warn, Log, Log, Error, Error, Warn] ! nat status"
    by (auto simp: connectionStatusHandlers_def)
next
  assume "\<not> (0 \<le> status \<and> status \<le> 5)"
  then show "\<exists>e. handleConnectionStatus status w = (Some e, w)"
    by (auto simp: handleConnectionStatus_def map_of_handlers)
next
  show "fst (connection_status_v1 status w) = None"
    by (simp add: connection_status_v1_def Let_def)
next
  assume "\<not> (0 \<le> status \<and> status \<le> 5)"
  then show "snd (connection_status_v1 status w) =
          console_log Warn [LStr ''Unknown DirectLine connection status:'', LNum status]
            (console_log Log [LStr ''Connection status:'', LNum status] w)"
    by (auto simp: connection_status_v1_def Let_def)
qed

theorem handleConnectionStatus_witness:
  "handleConnectionStatus 2 \<lparr>console = [], effects = []\<rparr> =
     (None, \<lparr>console = [(Log, [LStr ''DirectLine connection is online!''])], effects = []\<rparr>)
   \<and> (\<exists>e. handleConnectionStatus 6 \<lparr>console = [], effects = []\<rparr> =
        (Some e, \<lparr>console = [], effects = []\<rparr>))
   \<and> snd (connection_status_v1 6 \<lparr>console = [], effects = []\<rparr>) =
        \<lparr>console = [(Log, [LStr ''Connection status:'', LNum 6]),
                    (Warn, [LStr ''Unknown DirectLine connection status:'', LNum 6])],
         effects = []\<rparr>"
  using handleConnectionStatus_defined_on_0_to_5 [of 2 "\<lparr>console = [], effects = []\<rparr>"]
    handleConnectionStatus_defined_on_0_to_5 [of 6 "\<lparr>console = [], effects = []\<rparr>"]
  by (simp add: console_log_def connectionStatusHandlers_def)

section \<open>Token acquisition: what the caller gets\<close>

lemma digits_lt_10: "n < 10 \<Longrightarrow> digit_value (char_of (48 + n)) = n"
  by (simp add: digit_value_def)

lemma decimal_value_snoc: "decimal_value (s @ [c]) = 10 * decimal_value s + digit_value c"
  by (simp add: decimal_value_def)

lemma decimal_value_string_of_nat: "decimal_value (string_of_nat n) = n"
proof (induction n rule: string_of_nat.induct)
  case (1 n)
  show ?case
  proof (cases "n < 10")
    case True
    then show ?thesis
      by (subst string_of_nat.simps) (simp add: decimal_value_def digits_lt_10)
  next
    case False
    have "n mod 10 < 10" by simp
    then have d: "digit_value (char_of (48 + n mod 10)) = n mod 10" by (rule digits_lt_10)
    from False 1 have "decimal_value (string_of_nat (n div 10)) = n div 10" by simp
    with False d show ?thesis
      by (subst string_of_nat.simps) (simp add: decimal_value_snoc)
  qed
qed

lemma read_token_not_ok:
  "\<not> resp_ok r \<Longrightarrow>
     read_token (Inr r) =
       Inl (JsError ''Error'' (''Failed to fetch token: '' @ string_of_nat (resp_status r)))"
  by (simp add: read_token_def)

lemma read_token_ok:
  "resp_ok r \<Longrightarrow> resp_json r = Inr (JObj kvs) \<Longrightarrow> read_token (Inr r) = Inr (map_of kvs ''token'')"
  by (simp add: read_token_def)

text \<open>
  C2. When the response is ok and its JSON body is an object, both versions of
  \<open>fetchDirectLineToken\<close> return the body's \<open>token\<close> property (the second after logging
  that the token was received). When the response is not ok, both throw an \<open>Error\<close>
  whose message is \<open>Failed to fetch token: \<close> followed by the decimal digits of the
  status, and return no token. Whenever the function throws, whatever the cause, the
  thrown error is the one it has just written to the console at level error, and nothing
  else is written.
\<close>

theorem fetchDirectLineToken_outcome:
  "(resp_ok r \<and> resp_json r = Inr (JObj kvs) \<longrightarrow>
      fetchDirectLineToken_v1 secret (Inr r) w =
        (Inr (map_of kvs ''token''), perform (token_request secret) w)
      \<and> fetchDirectLineToken_v2 secret (Inr r) w =
        (Inr (map_of kvs ''token''),
         console_log Log [LStr ''Token received successfully!''] (perform (token_request secret) w)))
   \<and> (\<not> resp_ok r \<longrightarrow>
        (let err = JsError ''Error'' (''Failed to fetch token: '' @ string_of_nat (resp_status r));
             w' = console_log Error [LStr ''Error fetching Direct Line token:'', LErr err]
                    (perform (token_request secret) w)
         in fetchDirectLineToken_v1 secret (Inr r) w = (Inl err, w')
            \<and> fetchDirectLineToken_v2 secret (Inr r) w = (Inl err, w')
            \<and> decimal_value (string_of_nat (resp_status r)) = resp_status r))
   \<and> (fst (fetchDirectLineToken_v1 secret out w) = Inl e \<longrightarrow>
        snd (fetchDirectLineToken_v1 secret out w) =
          console_log Error [LStr ''Error fetching Direct Line token:'', LErr e]
            (perform (token_request secret) w))
   \<and> (fst (fetchDirectLineToken_v2 secret out w) = Inl e \<longrightarrow>
        snd (fetchDirectLineToken_v2 secret out w) =
          console_log Error [LStr ''Error fetching Direct Line token:'', LErr e]
            (perform (token_request secret) w))"
proof (intro conjI impI)
  assume "resp_ok r \<and> resp_json r = Inr (JObj kvs)"
  then have t: "read_token (Inr r) = Inr (map_of kvs ''token'')"
    by (simp add: read_token_ok)
  show "fetchDirectLineToken_v1 secret (Inr r) w =
        (Inr (map_of kvs ''token''), perform (token_request secret) w)"
    by (simp add: fetchDirectLineToken_v1_def t)
  show "fetchDirectLineToken_v2 secret (Inr r) w =
        (Inr (map_of kvs ''token''),
         console_log Log [LStr ''Token received successfully!''] (perform (token_request secret) w))"
    by (simp add: fetchDirectLineToken_v2_def t)
next
  assume "\<not> resp_ok r"
  then have t: "read_token (Inr r) =
       Inl (JsError ''Error'' (''Failed to fetch token: '' @ string_of_nat (resp_status r)))"
    by (rule read_token_not_ok)
  show "let err = JsError ''Error'' (''Failed to fetch token: '' @ string_of_nat (resp_status r));
             w' = console_log Error [LStr ''Error fetching Direct Line token:'', LErr err]
                    (perform (token_request secret) w)
         in fetchDirectLineToken_v1 secret (Inr r) w = (Inl err, w')
            \<and> fetchDirectLineToken_v2 secret (Inr r) w = (Inl err, w')
            \<and> decimal_value (string_of_nat (resp_status r)) = resp_status r"
    by (simp add: fetchDirectLineToken_v1_def fetchDirectLineToken_v2_def t
        decimal_value_string_of_nat)
next
  assume "fst (fetchDirectLineToken_v1 secret out w) = Inl e"
  then show "snd (fetchDirectLineToken_v1 secret out w) =
          console_log Error [LStr ''Error fetching Direct Line token:'', LErr e]
            (perform (token_request secret) w)"
    by (cases "read_token out") (simp_all add: fetchDirectLineToken_v1_def)
next
  assume "fst (fetchDirectLineToken_v2 secret out w) = Inl e"
  then show "snd (fetchDirectLineToken_v2 secret out w) =
          console_log Error [LStr ''Error fetching Direct Line token:'', LErr e]
            (perform (token_request secret) w)"
    by (cases "read_token out") (simp_all add: fetchDirectLineToken_v2_def)
qed

theorem fetchDirectLineToken_witness:
  "fetchDirectLineToken_v2 ''s''
      (Inr \<lparr>resp_ok = True, resp_status = 200,
            resp_json = Inr (JObj [(''conversationId'', JStr ''c''), (''token'', JStr ''tok'')])\<rparr>)
      \<lparr>console = [], effects = []\<rparr> =
     (Inr (Some (JStr ''tok'')),
      \<lparr>console = [(Log, [LStr ''Token received successfully!''])],
       effects = [token_request ''s'']\<rparr>)
   \<and> fetchDirectLineToken_v1 ''s''
        (Inr \<lparr>resp_ok = False, resp_status = 403, resp_json = Inr JNull\<rparr>)
        \<lparr>console = [], effects = []\<rparr> =
       (Inl (JsError ''Error'' ''Failed to fetch token: 403''),
        \<lparr>console = [(Error, [LStr ''Error fetching Direct Line token:'',
                               LErr (JsError ''Error'' ''Failed to fetch token: 403'')])],
         effects = [token_request ''s'']\<rparr>)
   \<and> snd (fetchDirectLineToken_v1 ''s'' (Inl (JsError ''TypeError'' ''Failed to fetch''))
          \<lparr>console = [], effects = []\<rparr>) =
       \<lparr>console = [(Error, [LStr ''Error fetching Direct Line token:'',
                              LErr (JsError ''TypeError'' ''Failed to fetch'')])],
        effects = [token_request ''s'']\<rparr>
   \<and> snd (fetchDirectLineToken_v2 ''s'' (Inl (JsError ''TypeError'' ''Failed to fetch''))
          \<lparr>console = [], effects = []\<rparr>) =
       \<lparr>console = [(Error, [LStr ''Error fetching Direct Line token:'',
                              LErr (JsError ''TypeError'' ''Failed to fetch'')])],
        effects = [token_request ''s'']\<rparr>"
proof -
  have d: "string_of_nat 403 = ''403''"
    by code_simp
  have f1: "fst (fetchDirectLineToken_v1 ''s'' (Inl (JsError ''TypeError'' ''Failed to fetch''))
          \<lparr>console = [], effects = []\<rparr>) = Inl (JsError ''TypeError'' ''Failed to fetch'')"
    by (simp add: fetchDirectLineToken_v1_def read_token_def)
  have f2: "fst (fetchDirectLineToken_v2 ''s'' (Inl (JsError ''TypeError'' ''Failed to fetch''))
          \<lparr>console = [], effects = []\<rparr>) = Inl (JsError ''TypeError'' ''Failed to fetch'')"
    by (simp add: fetchDirectLineToken_v2_def read_token_def)
  show ?thesis
    using fetchDirectLineToken_outcome
      [where r = "\<lparr>resp_ok = True, resp_status = 200,
            resp_json = Inr (JObj [(''conversationId'', JStr ''c''), (''token'', JStr ''tok'')])\<rparr>"
        and kvs = "[(''conversationId'', JStr ''c''), (''token'', JStr ''tok'')]"
        and secret = "''s''" and w = "\<lparr>console = [], effects = []\<rparr>"
        and out = "Inl (JsError ''TypeError'' ''Failed to fetch'')"
        and e = "JsError ''TypeError'' ''Failed to fetch''"]
      fetchDirectLineToken_outcome
      [where r = "\<lparr>resp_ok = False, resp_status = 403, resp_json = Inr JNull\<rparr>"
        and secret = "''s''" and w = "\<lparr>console = [], effects = []\<rparr>"]
    by (simp add: f1 f2 d console_log_def perform_def Let_def)
qed

section \<open>Sending a message\<close>

lemma handleSendMessage_empty:
  "trim (input_value p) = [] \<Longrightarrow> handleSendMessage t0 p = p"
  by (simp add: handleSendMessage_def)

lemma handleSendMessage_nonempty:
  "trim (input_value p) \<noteq> [] \<Longrightarrow>
     handleSendMessage t0 p =
       p\<lparr>effects := effects p @
             [PostActivity \<lparr>act_from = user_v1 t0, act_type = ''message'',
                             act_text = Some (trim (input_value p))\<rparr>],
         chat := chat p @ [\<lparr>div_className = ''user'', div_textContent = trim (input_value p)\<rparr>],
         scrolled_to_end := True,
         input_value := []\<rparr>"
  by (simp add: handleSendMessage_def Let_def appendMessage_def perform_def)

text \<open>
  C9. First version: when the input value is empty after trimming, \<open>handleSendMessage\<close>
  leaves the whole page as it is (chat, calls made, input value). Otherwise it clears the
  input value, having appended one message to the chat and made one \<open>postActivity\<close>
  call. So whenever it changes the input value, a message that was not empty has been
  sent.
\<close>

theorem handleSendMessage_blank_input:
  "(trim (input_value p) = [] \<longrightarrow> handleSendMessage t0 p = p)
   \<and> (trim (input_value p) \<noteq> [] \<longrightarrow>
        input_value (handleSendMessage t0 p) = []
        \<and> chat (handleSendMessage t0 p) =
            chat p @ [\<lparr>div_className = ''user'', div_textContent = trim (input_value p)\<rparr>]
        \<and> (\<exists>a. effects (handleSendMessage t0 p) = effects p @ [PostActivity a]))
   \<and> (input_value (handleSendMessage t0 p) \<noteq> input_value p \<longrightarrow>
        trim (input_value p) \<noteq> []
        \<and> (\<exists>a. effects (handleSendMessage t0 p) = effects p @ [PostActivity a]
               \<and> act_text a = Some (trim (input_value p))))"
proof (intro conjI impI)
  assume "trim (input_value p) = []"
  then show "handleSendMessage t0 p = p" by (rule handleSendMessage_empty)
next
  assume n: "trim (input_value p) \<noteq> []"
  show "input_value (handleSendMessage t0 p) = []"
    by (simp add: handleSendMessage_nonempty [OF n])
  show "chat (handleSendMessage t0 p) =
            chat p @ [\<lparr>div_className = ''user'', div_textContent = trim (input_value p)\<rparr>]"
    by (simp add: handleSendMessage_nonempty [OF n])
  show "\<exists>a. effects (handleSendMessage t0 p) = effects p @ [PostActivity a]"
    by (simp add: handleSendMessage_nonempty [OF n])
next
  assume c: "input_value (handleSendMessage t0 p) \<noteq> input_value p"
  then show n: "trim (input_value p) \<noteq> []"
    using handleSendMessage_empty [of p t0] by auto
  show "\<exists>a. effects (handleSendMessage t0 p) = effects p @ [PostActivity a]
               \<and> act_text a = Some (trim (input_value p))"
    by (simp add: handleSendMessage_nonempty [OF n])
qed

theorem handleSendMessage_blank_input_witness:
  "handleSendMessage 7
      \<lparr>console = [], effects = [], chat = [], scrolled_to_end = False, input_value = ''   ''\<rparr> =
     \<lparr>console = [], effects = [], chat = [], scrolled_to_end = False, input_value = ''   ''\<rparr>
   \<and> input_value (handleSendMessage 7
        \<lparr>console = [], effects = [], chat = [], scrolled_to_end = False,
         input_value = '' hi ''\<rparr>) = []
   \<and> chat (handleSendMessage 7
        \<lparr>console = [], effects = [], chat = [], scrolled_to_end = False,
         input_value = '' hi ''\<rparr>) = [\<lparr>div_className = ''user'', div_textContent = ''hi''\<rparr>]
   \<and> (\<exists>a. effects (handleSendMessage 7
        \<lparr>console = [], effects = [], chat = [], scrolled_to_end = False,
         input_value = '' hi ''\<rparr>) = [PostActivity a] \<and> act_text a = Some ''hi'')"
proof -
  have t1: "trim ''   '' = []" by (simp add: trim_def is_space_def)
  have t2: "trim '' hi '' = ''hi''" by (simp add: trim_def is_space_def)
  show ?thesis
    using handleSendMessage_blank_input
      [of "\<lparr>console = [], effects = [], chat = [], scrolled_to_end = False,
            input_value = ''   ''\<rparr>" 7]
      handleSendMessage_blank_input
      [of "\<lparr>console = [], effects = [], chat = [], scrolled_to_end = False,
            input_value = '' hi ''\<rparr>" 7]
    by (simp add: t1 t2)
qed

lemma postMessage_effects:
  "effects (postMessage m w) =
     effects w @ [PostActivity \<lparr>act_from = user_v2, act_type = ''message'',
                                 act_text = Some (em_text m)\<rparr>]"
  by (simp add: postMessage_def Let_def perform_def toggleDisabledState_def)

lemma push_effects: "effects (push cs w) = effects w"
  by (simp add: push_def)

text \<open>
  C4. A submitted message that is accepted leads to exactly one \<open>postActivity\<close> call,
  with \<open>from\<close> the local user, \<open>type\<close> \<open>message\<close> and \<open>text\<close> the text of the message.
  In the first version the message is the input value, trimmed, and it is accepted when
  it is not empty; the submission is a click or the key Enter. In the second version the
  widget hands the accepted message to \<open>onMessageEntered\<close>.
\<close>

theorem one_postActivity_per_message:
  "(trim (input_value p) \<noteq> [] \<and> (ev = Click \<or> ev = Keypress ''Enter'') \<longrightarrow>
      effects (step_v1 t0 ev p) =
        effects p @ [PostActivity \<lparr>act_from = user_v1 t0, act_type = ''message'',
                                    act_text = Some (trim (input_value p))\<rparr>])
   \<and> effects (step_v2 now (MessageEntered m) w) =
        effects w @ [PostActivity \<lparr>act_from = user_v2, act_type = ''message'',
                                    act_text = Some (em_text m)\<rparr>]"
proof (intro conjI impI)
  assume a: "trim (input_value p) \<noteq> [] \<and> (ev = Click \<or> ev = Keypress ''Enter'')"
  then have "step_v1 t0 ev p = handleSendMessage t0 p" by auto
  with a show "effects (step_v1 t0 ev p) =
        effects p @ [PostActivity \<lparr>act_from = user_v1 t0, act_type = ''message'',
                                    act_text = Some (trim (input_value p))\<rparr>]"
    by (simp add: handleSendMessage_nonempty)
next
  show "effects (step_v2 now (MessageEntered m) w) =
        effects w @ [PostActivity \<lparr>act_from = user_v2, act_type = ''message'',
                                    act_text = Some (em_text m)\<rparr>]"
    by (simp add: onMessageEntered_def Let_def postMessage_effects push_effects)
qed

theorem one_postActivity_per_message_witness:
  "effects (step_v1 7 (Keypress ''Enter'')
      \<lparr>console = [], effects = [], chat = [], scrolled_to_end = False,
       input_value = '' hi ''\<rparr>) =
     [PostActivity \<lparr>act_from = \<lparr>acc_id = IdNum 7, acc_name = ''You''\<rparr>, act_type = ''message'',
                     act_text = Some ''hi''\<rparr>]"
proof -
  have t2: "trim '' hi '' = ''hi''" by (simp add: trim_def is_space_def)
  show ?thesis
    using one_postActivity_per_message
      [where p = "\<lparr>console = [], effects = [], chat = [], scrolled_to_end = False,
            input_value = '' hi ''\<rparr>" and ev = "Keypress ''Enter''" and ?t0.0 = 7]
    by (simp add: t2 user_v1_def)
qed

section \<open>Receiving activities\<close>

lemma renderAssistantMessage_eq:
  "renderAssistantMessage now txt w =
     w\<lparr>items := apply_change (items w)
                   (Insert \<lparr>msg_id = now, msg_timestamp = now, msg_author = assistant,
                            msg_text = txt\<rparr>),
       pushed := pushed w @ [[Insert \<lparr>msg_id = now, msg_timestamp = now, msg_author = assistant,
                                       msg_text = txt\<rparr>]]\<rparr>"
  by (simp add: renderAssistantMessage_def push_def Let_def)

lemma handleMessage_assistant:
  "assistant_message a \<Longrightarrow>
     handleMessage now a w =
       w\<lparr>items := apply_change (items w)
                     (Insert \<lparr>msg_id = now, msg_timestamp = now, msg_author = assistant,
                              msg_text = act_text a\<rparr>),
         pushed := pushed w @ [[Insert \<lparr>msg_id = now, msg_timestamp = now,
                                         msg_author = assistant, msg_text = act_text a\<rparr>]],
         classes := classes w - {CHAT_DISABLED_CLASS},
         textArea := map_option (\<lambda>calls. calls @ [''focus'']) (textArea w),
         typingUsers := []\<rparr>"
  by (simp add: assistant_message_def handleMessage_def user_v2_def Let_def
      renderAssistantMessage_eq toggleDisabledState_def)

lemma handleMessage_other: "\<not> assistant_message a \<Longrightarrow> handleMessage now a w = w"
  by (auto simp: assistant_message_def handleMessage_def user_v2_def Let_def)

text \<open>
  The guard of both subscribers. First version: the chat gains one \<open>bot\<close> element with
  the activity's text exactly when the type is \<open>message\<close> and \<open>from.id\<close> is not the id
  of the local user; otherwise the page is unchanged. Second version: exactly in that case
  one insert with the activity's text is pushed to the data source; otherwise the widget
  is unchanged.
\<close>

lemma on_activity_v1_renders_iff:
  "(chat (on_activity_v1 t0 a p) =
       chat p @ [\<lparr>div_className = ''bot'',
                  div_textContent = (case act_text a of None \<Rightarrow> [] | Some t \<Rightarrow> t)\<rparr>]
     \<longleftrightarrow> act_type a = ''message'' \<and> acc_id (act_from a) \<noteq> acc_id (user_v1 t0))
   \<and> (\<not> (act_type a = ''message'' \<and> acc_id (act_from a) \<noteq> acc_id (user_v1 t0)) \<longrightarrow>
        on_activity_v1 t0 a p = p)"
  by (simp add: on_activity_v1_def appendMessage_def)

lemma handleMessage_pushes_iff:
  "(pushed (handleMessage now a w) =
       pushed w @ [[Insert \<lparr>msg_id = now, msg_timestamp = now, msg_author = assistant,
                             msg_text = act_text a\<rparr>]]
     \<longleftrightarrow> act_type a = ''message'' \<and> acc_id (act_from a) \<noteq> acc_id user_v2)
   \<and> (\<not> (act_type a = ''message'' \<and> acc_id (act_from a) \<noteq> acc_id user_v2) \<longrightarrow>
        handleMessage now a w = w)"
proof -
  have g: "assistant_message a \<longleftrightarrow>
      act_type a = ''message'' \<and> acc_id (act_from a) \<noteq> acc_id user_v2"
    by (simp add: assistant_message_def user_v2_def)
  show ?thesis
    unfolding g [symmetric]
    by (cases "assistant_message a") (simp_all add: handleMessage_assistant handleMessage_other)
qed

text \<open>
  C1. Second version, two messages of the assistant handled at the same clock reading
  (here 9), starting from an empty chat. Both pass the guard, and for both an insert is
  pushed to the data source; the second insert carries the id of the first and is
  dropped, so the chat shows the text of the first message only.
\<close>

theorem second_message_of_same_millisecond_is_not_rendered:
  "items (run_v2
      [(9, ActivityReceived \<lparr>act_from = \<lparr>acc_id = IdStr ''bot-1'', acc_name = ''Bot''\<rparr>,
                               act_type = ''message'', act_text = Some ''first''\<rparr>),
       (9, ActivityReceived \<lparr>act_from = \<lparr>acc_id = IdStr ''bot-1'', acc_name = ''Bot''\<rparr>,
                               act_type = ''message'', act_text = Some ''second''\<rparr>)]
      \<lparr>console = [], effects = [], store = [], items = [], pushed = [], classes = {},
       textArea = Some [], focused = True, typingUsers = []\<rparr>) =
     [\<lparr>msg_id = 9, msg_timestamp = 9, msg_author = assistant, msg_text = Some ''first''\<rparr>]
   \<and> pushed (run_v2
      [(9, ActivityReceived \<lparr>act_from = \<lparr>acc_id = IdStr ''bot-1'', acc_name = ''Bot''\<rparr>,
                               act_type = ''message'', act_text = Some ''first''\<rparr>),
       (9, ActivityReceived \<lparr>act_from = \<lparr>acc_id = IdStr ''bot-1'', acc_name = ''Bot''\<rparr>,
                               act_type = ''message'', act_text = Some ''second''\<rparr>)]
      \<lparr>console = [], effects = [], store = [], items = [], pushed = [], classes = {},
       textArea = Some [], focused = True, typingUsers = []\<rparr>) =
     [[Insert \<lparr>msg_id = 9, msg_timestamp = 9, msg_author = assistant,
               msg_text = Some ''first''\<rparr>],
      [Insert \<lparr>msg_id = 9, msg_timestamp = 9, msg_author = assistant,
               msg_text = Some ''second''\<rparr>]]"
  by (simp add: handleMessage_def user_v2_def Let_def renderAssistantMessage_eq
      toggleDisabledState_def)

section \<open>The disabled state of the widget\<close>

lemma handleConnectionStatus_console_only:
  "\<exists>c. snd (handleConnectionStatus n w) = w\<lparr>console := c\<rparr>"
proof (cases "map_of connectionStatusHandlers n")
  case None
  then have "snd (handleConnectionStatus n w) = w\<lparr>console := console w\<rparr>"
    by (simp add: handleConnectionStatus_def)
  then show ?thesis ..
next
  case (Some entry)
  then have "snd (handleConnectionStatus n w) = w\<lparr>console := console w @ [entry]\<rparr>"
    by (cases entry) (simp add: handleConnectionStatus_def console_log_def)
  then show ?thesis ..
qed

lemma onMessageEntered_disables:
  "classes (onMessageEntered now m w) = insert CHAT_DISABLED_CLASS (classes w)
   \<and> textArea (onMessageEntered now m w) = map_option (\<lambda>calls. calls @ [''blur'']) (textArea w)
   \<and> focused (onMessageEntered now m w) = focused w"
  by (simp add: onMessageEntered_def postMessage_def Let_def perform_def
      toggleDisabledState_def push_def)

lemma on_send_error_v2_enables:
  "classes (on_send_error_v2 now e w) = classes w - {CHAT_DISABLED_CLASS}
   \<and> textArea (on_send_error_v2 now e w) = map_option (\<lambda>calls. calls @ [''focus'']) (textArea w)
   \<and> focused (on_send_error_v2 now e w) = focused w"
  by (simp add: on_send_error_v2_def Let_def renderAssistantMessage_eq
      toggleDisabledState_def console_log_def)

lemma step_v2_keeps_class_and_calls:
  "toggles ev = None \<Longrightarrow>
     classes (step_v2 now ev w) = classes w \<and> textArea (step_v2 now ev w) = textArea w"
proof (cases ev)
  case (ActivityReceived a)
  assume "toggles ev = None"
  with ActivityReceived have "\<not> assistant_message a"
    by (simp split: if_splits)
  with ActivityReceived show ?thesis
    by (simp add: handleMessage_other)
next
  case (ActivityFailed e)
  then show ?thesis
    by (simp add: handleError_def renderAssistantMessage_eq console_log_def)
next
  case (StatusChanged n)
  obtain c where "snd (handleConnectionStatus n w) = w\<lparr>console := c\<rparr>"
    using handleConnectionStatus_console_only by blast
  with StatusChanged show ?thesis by simp
next
  case PostSucceeded
  then show ?thesis
    by (simp add: on_sent_v2_def console_log_def)
qed simp_all

text \<open>
  The class half of the disabled state. An entered message adds the class; an assistant
  message and a failed send remove it; no other event touches it. So after any run the
  widget carries the class exactly when the last of these three kinds of event was an
  entered message (and as it started when there was none).
\<close>

lemma step_v2_class:
  "CHAT_DISABLED_CLASS \<in> classes (step_v2 now ev w) \<longleftrightarrow>
     (case toggles ev of None \<Rightarrow> CHAT_DISABLED_CLASS \<in> classes w | Some b \<Rightarrow> b)"
proof (cases "toggles ev")
  case None
  then have "classes (step_v2 now ev w) = classes w"
    by (simp add: step_v2_keeps_class_and_calls)
  with None show ?thesis by simp
next
  case (Some b)
  then show ?thesis
  proof (cases ev)
    case (MessageEntered m)
    with Some show ?thesis
      by (simp add: onMessageEntered_disables)
  next
    case (ActivityReceived a)
    with Some have "assistant_message a" "b = False"
      by (simp_all split: if_splits)
    with ActivityReceived Some show ?thesis
      by (simp add: handleMessage_assistant)
  next
    case (PostFailed e)
    with Some show ?thesis
      by (simp add: on_send_error_v2_enables)
  qed simp_all
qed

lemma run_v2_class:
  "CHAT_DISABLED_CLASS \<in> classes (run_v2 evs w) \<longleftrightarrow>
     (case last_toggle evs of None \<Rightarrow> CHAT_DISABLED_CLASS \<in> classes w | Some b \<Rightarrow> b)"
proof (induction evs arbitrary: w)
  case Nil
  show ?case by simp
next
  case (Cons x evs)
  obtain now ev where x: "x = (now, ev)" by (cases x)
  show ?case
    by (simp add: x Cons.IH step_v2_class split: option.splits)
qed

text \<open>No event moves the focus of the \<open><textarea>\<close>.\<close>

lemma step_v2_focus: "focused (step_v2 now ev w) = focused w"
proof (cases ev)
  case (MessageEntered m)
  then show ?thesis by (simp add: onMessageEntered_disables)
next
  case (ActivityReceived a)
  then show ?thesis
    by (cases "assistant_message a") (simp_all add: handleMessage_assistant handleMessage_other)
next
  case (ActivityFailed e)
  then show ?thesis
    by (simp add: handleError_def renderAssistantMessage_eq console_log_def)
next
  case (StatusChanged n)
  obtain c where "snd (handleConnectionStatus n w) = w\<lparr>console := c\<rparr>"
    using handleConnectionStatus_console_only by blast
  with StatusChanged show ?thesis by simp
next
  case PostSucceeded
  then show ?thesis by (simp add: on_sent_v2_def console_log_def)
next
  case (PostFailed e)
  then show ?thesis by (simp add: on_send_error_v2_enables)
qed

text \<open>
  C3. Second version, a message entered while the \<open><textarea>\<close> has the focus (the user
  has just typed it). The widget gets the disabled class and \<open>blur()\<close> is called, but on
  the element of the text area component: the \<open><textarea>\<close> keeps the focus while the
  reply is awaited. When the reply arrives the class is removed and \<open>focus()\<close> is called
  on the same element.
\<close>

theorem entered_message_leaves_textarea_focused:
  "classes (step_v2 5
      (MessageEntered \<lparr>em_id = None, em_timestamp = 5, em_author = user_v2, em_text = ''hi''\<rparr>)
      \<lparr>console = [], effects = [], store = [], items = [], pushed = [], classes = {},
       textArea = Some [], focused = True, typingUsers = []\<rparr>) = {CHAT_DISABLED_CLASS}
   \<and> textArea (step_v2 5
      (MessageEntered \<lparr>em_id = None, em_timestamp = 5, em_author = user_v2, em_text = ''hi''\<rparr>)
      \<lparr>console = [], effects = [], store = [], items = [], pushed = [], classes = {},
       textArea = Some [], focused = True, typingUsers = []\<rparr>) = Some [''blur'']
   \<and> focused (step_v2 5
      (MessageEntered \<lparr>em_id = None, em_timestamp = 5, em_author = user_v2, em_text = ''hi''\<rparr>)
      \<lparr>console = [], effects = [], store = [], items = [], pushed = [], classes = {},
       textArea = Some [], focused = True, typingUsers = []\<rparr>) = True
   \<and> textArea (run_v2
      [(5, MessageEntered \<lparr>em_id = None, em_timestamp = 5, em_author = user_v2,
                            em_text = ''hi''\<rparr>),
       (9, ActivityReceived \<lparr>act_from = \<lparr>acc_id = IdStr ''bot-1'', acc_name = ''Bot''\<rparr>,
                               act_type = ''message'', act_text = Some ''hello''\<rparr>)]
      \<lparr>console = [], effects = [], store = [], items = [], pushed = [], classes = {},
       textArea = Some [], focused = True, typingUsers = []\<rparr>) = Some [''blur'', ''focus'']"
  by (simp add: onMessageEntered_def postMessage_def handleMessage_def user_v2_def Let_def
      renderAssistantMessage_eq toggleDisabledState_def push_def perform_def)

section \<open>A failed send\<close>

lemma step_v2_effects:
  "(\<forall>m. ev \<noteq> MessageEntered m) \<Longrightarrow> effects (step_v2 now ev w) = effects w"
proof (cases ev)
  case (MessageEntered m)
  assume "\<forall>m. ev \<noteq> MessageEntered m"
  with MessageEntered show ?thesis by simp
next
  case (ActivityReceived a)
  then show ?thesis
    by (cases "assistant_message a") (simp_all add: handleMessage_assistant handleMessage_other)
next
  case (ActivityFailed e)
  then show ?thesis
    by (simp add: handleError_def renderAssistantMessage_eq console_log_def)
next
  case (StatusChanged n)
  obtain c where "snd (handleConnectionStatus n w) = w\<lparr>console := c\<rparr>"
    using handleConnectionStatus_console_only by blast
  with StatusChanged show ?thesis by simp
next
  case PostSucceeded
  then show ?thesis by (simp add: on_sent_v2_def console_log_def)
next
  case (PostFailed e)
  then show ?thesis
    by (simp add: on_send_error_v2_def Let_def renderAssistantMessage_eq
        toggleDisabledState_def console_log_def)
qed

lemma step_v1_effects:
  "ev \<noteq> Click \<Longrightarrow> ev \<noteq> Keypress ''Enter'' \<Longrightarrow> effects (step_v1 t0 ev p) = effects p"
proof (cases ev)
  case (Activity a)
  then show ?thesis by (simp add: on_activity_v1_def appendMessage_def)
next
  case (ActivityError e)
  then show ?thesis by (simp add: on_activity_error_v1_def appendMessage_def console_log_def)
next
  case (ConnectionStatus n)
  then show ?thesis by (simp add: connection_status_v1_def Let_def console_log_def)
next
  case Sent
  then show ?thesis by (simp add: on_sent_v1_def console_log_def)
next
  case (SendError e)
  then show ?thesis by (simp add: on_send_error_v1_def console_log_def)
qed auto

lemma on_send_error_v2_eq:
  "on_send_error_v2 now e w =
     w\<lparr>console := console w @ [(Error, [LStr ''Error sending message:'', LErr e])],
       items := apply_change (items w)
                  (Insert \<lparr>msg_id = now, msg_timestamp = now, msg_author = assistant,
                           msg_text = Some (''Error sending message: '' @ error_to_string e)\<rparr>),
       pushed := pushed w @
                  [[Insert \<lparr>msg_id = now, msg_timestamp = now, msg_author = assistant,
                            msg_text = Some (''Error sending message: '' @ error_to_string e)\<rparr>]],
       classes := classes w - {CHAT_DISABLED_CLASS},
       textArea := map_option (\<lambda>calls. calls @ [''focus'']) (textArea w),
       typingUsers := []\<rparr>"
  by (simp add: on_send_error_v2_def Let_def renderAssistantMessage_eq
      toggleDisabledState_def console_log_def)

text \<open>
  C6, as stated, fails in the first version: there the error callback of \<open>postActivity\<close>
  writes one console entry and renders nothing into the chat.
\<close>

theorem send_error_v1_renders_nothing:
  "chat (step_v1 7 (SendError (JsError ''AjaxError'' ''ajax error 500''))
      \<lparr>console = [], effects = [], chat = [], scrolled_to_end = False, input_value = []\<rparr>) = []
   \<and> console (step_v1 7 (SendError (JsError ''AjaxError'' ''ajax error 500''))
      \<lparr>console = [], effects = [], chat = [], scrolled_to_end = False, input_value = []\<rparr>) =
     [(Error, [LStr ''Error sending message:'', LErr (JsError ''AjaxError'' ''ajax error 500'')])]"
  by (simp add: on_send_error_v1_def console_log_def)

text \<open>
  C6, amended. A send error is not retried: in both versions the error callback makes no
  call, so the activity is not posted again, and no event other than a submission by the
  user makes a call. Second version: the callback writes one error entry to the console,
  empties \<open>typingUsers\<close>, pushes one insert with the error text to the data source
  (which shows it after the messages it holds when no message has its id), removes the
  disabled class and calls \<open>focus()\<close> on the text area's element; it leaves the array of
  the custom store alone. First version: the callback writes one error entry to the
  console and changes nothing else.
\<close>

theorem send_error_is_not_retried:
  "effects (on_send_error_v2 now e w) = effects w
   \<and> console (on_send_error_v2 now e w) =
       console w @ [(Error, [LStr ''Error sending message:'', LErr e])]
   \<and> pushed (on_send_error_v2 now e w) =
       pushed w @
         [[Insert \<lparr>msg_id = now, msg_timestamp = now, msg_author = assistant,
                   msg_text = Some (''Error sending message: '' @ error_to_string e)\<rparr>]]
   \<and> (now \<notin> set (map msg_id (items w)) \<longrightarrow>
        items (on_send_error_v2 now e w) =
          items w @
            [\<lparr>msg_id = now, msg_timestamp = now, msg_author = assistant,
              msg_text = Some (''Error sending message: '' @ error_to_string e)\<rparr>])
   \<and> store (on_send_error_v2 now e w) = store w
   \<and> typingUsers (on_send_error_v2 now e w) = []
   \<and> classes (on_send_error_v2 now e w) = classes w - {CHAT_DISABLED_CLASS}
   \<and> textArea (on_send_error_v2 now e w) =
       map_option (\<lambda>calls. calls @ [''focus'']) (textArea w)
   \<and> on_send_error_v1 e p =
       p\<lparr>console := console p @ [(Error, [LStr ''Error sending message:'', LErr e])]\<rparr>
   \<and> ((\<forall>m. ev2 \<noteq> MessageEntered m) \<longrightarrow> effects (step_v2 now ev2 w) = effects w)
   \<and> (ev1 \<noteq> Click \<and> ev1 \<noteq> Keypress ''Enter'' \<longrightarrow> effects (step_v1 t0 ev1 p) = effects p)"
proof -
  have v1: "on_send_error_v1 e p =
       p\<lparr>console := console p @ [(Error, [LStr ''Error sending message:'', LErr e])]\<rparr>"
    by (simp add: on_send_error_v1_def console_log_def)
  show ?thesis
    by (simp add: on_send_error_v2_eq v1 step_v2_effects step_v1_effects
        del: step_v2.simps step_v1.simps)
qed

theorem send_error_witness:
  "effects (step_v2 5 (PostFailed (JsError ''AjaxError'' ''ajax error 500''))
      \<lparr>console = [], effects = [], store = [], items = [], pushed = [],
       classes = {CHAT_DISABLED_CLASS}, textArea = Some [''blur''], focused = True,
       typingUsers = [assistant]\<rparr>) = []
   \<and> effects (step_v1 7 (SendError (JsError ''AjaxError'' ''ajax error 500''))
      \<lparr>console = [], effects = [], chat = [], scrolled_to_end = False, input_value = []\<rparr>) = []
   \<and> items (on_send_error_v2 5 (JsError ''AjaxError'' ''ajax error 500'')
      \<lparr>console = [], effects = [], store = [], items = [], pushed = [],
       classes = {CHAT_DISABLED_CLASS}, textArea = Some [''blur''], focused = True,
       typingUsers = [assistant]\<rparr>) =
     [\<lparr>msg_id = 5, msg_timestamp = 5, msg_author = assistant,
       msg_text = Some ''Error sending message: AjaxError: ajax error 500''\<rparr>]
   \<and> classes (on_send_error_v2 5 (JsError ''AjaxError'' ''ajax error 500'')
      \<lparr>console = [], effects = [], store = [], items = [], pushed = [],
       classes = {CHAT_DISABLED_CLASS}, textArea = Some [''blur''], focused = True,
       typingUsers = [assistant]\<rparr>) = {}"
  using send_error_is_not_retried
    [where now = 5 and ?t0.0 = 7 and e = "JsError ''AjaxError'' ''ajax error 500''"
      and ?ev2.0 = "PostFailed (JsError ''AjaxError'' ''ajax error 500'')"
      and ?ev1.0 = "SendError (JsError ''AjaxError'' ''ajax error 500'')"
      and w = "\<lparr>console = [], effects = [], store = [], items = [], pushed = [],
                 classes = {CHAT_DISABLED_CLASS}, textArea = Some [''blur''], focused = True,
                 typingUsers = [assistant]\<rparr>"
      and p = "\<lparr>console = [], effects = [], chat = [], scrolled_to_end = False,
                 input_value = []\<rparr>"]
  by (simp del: step_v2.simps step_v1.simps)

section \<open>The chat log only grows\<close>














section \<open>Start-up order\<close>

lemma fetch_v1_Inr:
  "fst (fetchDirectLineToken_v1 secret out p) = Inr token \<Longrightarrow>
     fetchDirectLineToken_v1 secret out p = (Inr token, perform (token_request secret) p)"
  by (cases "read_token out") (simp_all add: fetchDirectLineToken_v1_def)

lemma fetch_v1_Inl:
  "fst (fetchDirectLineToken_v1 secret out p) = Inl e \<Longrightarrow>
     fetchDirectLineToken_v1 secret out p =
       (Inl e, console_log Error [LStr ''Error fetching Direct Line token:'', LErr e]
                 (perform (token_request secret) p))"
  by (cases "read_token out") (simp_all add: fetchDirectLineToken_v1_def)

lemma main_success:
  "fst (fetchDirectLineToken_v1 secret out p) = Inr token \<Longrightarrow>
     main secret out p =
       p\<lparr>effects := effects p @
            [token_request secret,
             NewDirectLine token DIRECT_LINE_DOMAIN,
             SubscribeActivity,
             SubscribeConnectionStatus,
             AddEventListener ''send'' ''click'',
             AddEventListener ''input'' ''keypress'']\<rparr>"
  by (simp add: main_def initChat_def fetch_v1_Inr perform_def)

lemma main_failure:
  "fst (fetchDirectLineToken_v1 secret out p) = Inl e \<Longrightarrow>
     main secret out p =
       p\<lparr>console := console p @
            [(Error, [LStr ''Error fetching Direct Line token:'', LErr e]),
             (Error, [LStr ''Error initializing chat:'', LErr e])],
         effects := effects p @ [token_request secret],
         chat := chat p @
            [\<lparr>div_className = ''bot'',
              div_textContent = ''Error initializing chat. Please try again later.''\<rparr>],
         scrolled_to_end := True\<rparr>"
  by (simp add: main_def initChat_def fetch_v1_Inl perform_def console_log_def appendMessage_def)

text \<open>
  C5. First version. When the token is fetched, \<open>main\<close> makes these calls and no others,
  in this order: the token request, the \<open>DirectLine\<close> constructor with the fetched
  token, the subscription to \<open>activity$\<close>, the subscription to \<open>connectionStatus$\<close>, the
  click listener, the keypress listener. So, starting from a page on which no call has
  been made, the request comes before the constructor, and both subscriptions come before
  both listeners. When fetching the token fails, the token request is the only call: no
  session is constructed, nothing is subscribed and no listener is added; the failure is
  logged and shown in the chat.
\<close>

theorem main_start_up_order:
  "(fst (fetchDirectLineToken_v1 secret out p) = Inr token \<longrightarrow>
      effects (main secret out p) =
        effects p @
          [token_request secret,
           NewDirectLine token DIRECT_LINE_DOMAIN,
           SubscribeActivity,
           SubscribeConnectionStatus,
           AddEventListener ''send'' ''click'',
           AddEventListener ''input'' ''keypress''])
   \<and> (fst (fetchDirectLineToken_v1 secret out p) = Inr token \<and> effects p = [] \<longrightarrow>
        precedes (token_request secret) (NewDirectLine token DIRECT_LINE_DOMAIN)
          (effects (main secret out p))
        \<and> precedes (NewDirectLine token DIRECT_LINE_DOMAIN) SubscribeActivity
            (effects (main secret out p))
        \<and> precedes (NewDirectLine token DIRECT_LINE_DOMAIN) SubscribeConnectionStatus
            (effects (main secret out p))
        \<and> precedes SubscribeActivity (AddEventListener ''send'' ''click'')
            (effects (main secret out p))
        \<and> precedes SubscribeActivity (AddEventListener ''input'' ''keypress'')
            (effects (main secret out p))
        \<and> precedes SubscribeConnectionStatus (AddEventListener ''send'' ''click'')
            (effects (main secret out p))
        \<and> precedes SubscribeConnectionStatus (AddEventListener ''input'' ''keypress'')
            (effects (main secret out p)))
   \<and> (fst (fetchDirectLineToken_v1 secret out p) = Inl e \<longrightarrow>
        effects (main secret out p) = effects p @ [token_request secret]
        \<and> console (main secret out p) =
            console p @
              [(Error, [LStr ''Error fetching Direct Line token:'', LErr e]),
               (Error, [LStr ''Error initializing chat:'', LErr e])]
        \<and> chat (main secret out p) =
            chat p @
              [\<lparr>div_className = ''bot'',
                div_textContent = ''Error initializing chat. Please try again later.''\<rparr>])"
proof (intro conjI impI)
  assume "fst (fetchDirectLineToken_v1 secret out p) = Inr token"
  then show "effects (main secret out p) =
        effects p @
          [token_request secret,
           NewDirectLine token DIRECT_LINE_DOMAIN,
           SubscribeActivity,
           SubscribeConnectionStatus,
           AddEventListener ''send'' ''click'',
           AddEventListener ''input'' ''keypress'']"
    by (simp add: main_success)
next
  assume a: "fst (fetchDirectLineToken_v1 secret out p) = Inr token \<and> effects p = []"
  then have e: "effects (main secret out p) =
          [token_request secret,
           NewDirectLine token DIRECT_LINE_DOMAIN,
           SubscribeActivity,
           SubscribeConnectionStatus,
           AddEventListener ''send'' ''click'',
           AddEventListener ''input'' ''keypress'']"
    by (simp add: main_success)
  show "precedes (token_request secret) (NewDirectLine token DIRECT_LINE_DOMAIN)
          (effects (main secret out p))"
    by (simp add: e precedes_def token_request_def)
  show "precedes (NewDirectLine token DIRECT_LINE_DOMAIN) SubscribeActivity
            (effects (main secret out p))"
    by (simp add: e precedes_def token_request_def)
  show "precedes (NewDirectLine token DIRECT_LINE_DOMAIN) SubscribeConnectionStatus
            (effects (main secret out p))"
    by (simp add: e precedes_def token_request_def)
  show "precedes SubscribeActivity (AddEventListener ''send'' ''click'')
            (effects (main secret out p))"
    by (simp add: e precedes_def token_request_def)
  show "precedes SubscribeActivity (AddEventListener ''input'' ''keypress'')
            (effects (main secret out p))"
    by (simp add: e precedes_def token_request_def)
  show "precedes SubscribeConnectionStatus (AddEventListener ''send'' ''click'')
            (effects (main secret out p))"
    by (simp add: e precedes_def token_request_def)
  show "precedes SubscribeConnectionStatus (AddEventListener ''input'' ''keypress'')
            (effects (main secret out p))"
    by (simp add: e precedes_def token_request_def)
next
  assume f: "fst (fetchDirectLineToken_v1 secret out p) = Inl e"
  show "effects (main secret out p) = effects p @ [token_request secret]"
    by (simp add: main_failure [OF f])
  show "console (main secret out p) =
            console p @
              [(Error, [LStr ''Error fetching Direct Line token:'', LErr e]),
               (Error, [LStr ''Error initializing chat:'', LErr e])]"
    by (simp add: main_failure [OF f])
  show "chat (main secret out p) =
            chat p @
              [\<lparr>div_className = ''bot'',
                div_textContent = ''Error initializing chat. Please try again later.''\<rparr>]"
    by (simp add: main_failure [OF f])
qed

theorem main_start_up_witness:
  "effects (main ''s''
      (Inr \<lparr>resp_ok = True, resp_status = 200,
            resp_json = Inr (JObj [(''token'', JStr ''tok'')])\<rparr>)
      \<lparr>console = [], effects = [], chat = [], scrolled_to_end = False, input_value = []\<rparr>) =
     [token_request ''s'',
      NewDirectLine (Some (JStr ''tok'')) DIRECT_LINE_DOMAIN,
      SubscribeActivity,
      SubscribeConnectionStatus,
      AddEventListener ''send'' ''click'',
      AddEventListener ''input'' ''keypress'']
   \<and> precedes SubscribeConnectionStatus (AddEventListener ''send'' ''click'')
       (effects (main ''s''
          (Inr \<lparr>resp_ok = True, resp_status = 200,
                resp_json = Inr (JObj [(''token'', JStr ''tok'')])\<rparr>)
          \<lparr>console = [], effects = [], chat = [], scrolled_to_end = False, input_value = []\<rparr>))
   \<and> effects (main ''s''
        (Inr \<lparr>resp_ok = False, resp_status = 401, resp_json = Inr JNull\<rparr>)
        \<lparr>console = [], effects = [], chat = [], scrolled_to_end = False, input_value = []\<rparr>) =
       [token_request ''s'']
   \<and> chat (main ''s''
        (Inr \<lparr>resp_ok = False, resp_status = 401, resp_json = Inr JNull\<rparr>)
        \<lparr>console = [], effects = [], chat = [], scrolled_to_end = False, input_value = []\<rparr>) =
       [\<lparr>div_className = ''bot'',
         div_textContent = ''Error initializing chat. Please try again later.''\<rparr>]"
proof -
  have ok: "fst (fetchDirectLineToken_v1 ''s''
      (Inr \<lparr>resp_ok = True, resp_status = 200,
            resp_json = Inr (JObj [(''token'', JStr ''tok'')])\<rparr>)
      \<lparr>console = [], effects = [], chat = [], scrolled_to_end = False, input_value = []\<rparr>) =
      Inr (Some (JStr ''tok''))"
    by (simp add: fetchDirectLineToken_v1_def read_token_def)
  have d: "string_of_nat 401 = ''401''"
    by code_simp
  have ko: "fst (fetchDirectLineToken_v1 ''s''
      (Inr \<lparr>resp_ok = False, resp_status = 401, resp_json = Inr JNull\<rparr>)
      \<lparr>console = [], effects = [], chat = [], scrolled_to_end = False, input_value = []\<rparr>) =
      Inl (JsError ''Error'' ''Failed to fetch token: 401'')"
    by (simp add: fetchDirectLineToken_v1_def read_token_def d)
  show ?thesis
    using main_start_up_order
      [where secret = "''s''"
        and out = "Inr \<lparr>resp_ok = True, resp_status = 200,
            resp_json = Inr (JObj [(''token'', JStr ''tok'')])\<rparr>"
        and p = "\<lparr>console = [], effects = [], chat = [], scrolled_to_end = False,
                   input_value = []\<rparr>"
        and token = "Some (JStr ''tok'')"]
      main_start_up_order
      [where secret = "''s''"
        and out = "Inr \<lparr>resp_ok = False, resp_status = 401, resp_json = Inr JNull\<rparr>"
        and p = "\<lparr>console = [], effects = [], chat = [], scrolled_to_end = False,
                   input_value = []\<rparr>"
        and e = "JsError ''Error'' ''Failed to fetch token: 401''"]
    by (auto simp: ok ko)
qed

text \<open>
  The second version, for comparison: the widget, and with it \<open>onMessageEntered\<close>, is
  created after the session and before the two subscriptions.
\<close>

lemma start_v2_success:
  "fst (fetchDirectLineToken_v2 secret out
          (perform NewDataSource (perform NewCustomStore (perform LoadMessages w)))) = Inr token \<Longrightarrow>
     effects (start_v2 secret out w) =
       effects w @
         [LoadMessages, NewCustomStore, NewDataSource,
          token_request secret,
          NewDirectLine token DIRECT_LINE_DOMAIN,
          NewChat,
          SubscribeActivity,
          SubscribeConnectionStatus]"
  by (cases "read_token out")
    (simp_all add: start_v2_def initChatService_def fetchDirectLineToken_v2_def perform_def
      console_log_def)

section \<open>E-mail links\<close>

lemma try_down_Some:
  "try_down f lo n = Some r \<Longrightarrow> \<exists>k. lo \<le> k \<and> k \<le> n \<and> f k = Some r"
proof (induction n)
  case 0
  then show ?case by (auto split: if_splits)
next
  case (Suc n)
  show ?case
  proof (cases "f (Suc n)")
    case None
    with Suc.prems have "try_down f lo n = Some r"
      by (simp split: if_splits)
    then obtain k where "lo \<le> k" "k \<le> n" "f k = Some r"
      using Suc.IH by blast
    then show ?thesis by (intro exI [of _ k]) simp
  next
    case (Some r')
    with Suc.prems have "lo \<le> Suc n" "r' = r"
      by (simp_all split: if_splits)
    with Some show ?thesis by (intro exI [of _ "Suc n"]) simp
  qed
qed

lemma try_down_None:
  "try_down f lo n = None \<Longrightarrow> lo \<le> k \<Longrightarrow> k \<le> n \<Longrightarrow> f k = None"
proof (induction n)
  case 0
  then show ?case by (simp split: if_splits)
next
  case (Suc n)
  show ?case
  proof (cases "k = Suc n")
    case True
    with Suc.prems show ?thesis
      by (cases "f (Suc n)") (simp_all split: if_splits)
  next
    case False
    with Suc.prems have k: "k \<le> n" by simp
    with Suc.prems have "\<not> Suc n < lo" by simp
    with Suc.prems have "try_down f lo n = None"
      by (cases "f (Suc n)") simp_all
    with k Suc.prems show ?thesis
      using Suc.IH by blast
  qed
qed

lemma all_take_iff_le_run:
  "k \<le> length s \<and> list_all cls (take k s) \<longleftrightarrow> k \<le> length (takeWhile cls s)"
proof (induction s arbitrary: k)
  case Nil
  show ?case by simp
next
  case (Cons c cs)
  show ?case
  proof (cases k)
    case 0
    then show ?thesis by simp
  next
    case (Suc j)
    with Cons.IH [of j] show ?thesis by auto
  qed
qed

lemma le_greedy_iff:
  "k \<le> greedy cls hi s \<longleftrightarrow>
     k \<le> length s \<and> list_all cls (take k s) \<and> (case hi of None \<Rightarrow> True | Some m \<Rightarrow> k \<le> m)"
  using all_take_iff_le_run [of k s cls]
  by (cases hi) (auto simp: greedy_def Let_def)

text \<open>What the matcher returns is the length of a prefix that matches the pattern.\<close>

lemma match_seq_sound:
  "match_seq re s = Some n \<Longrightarrow> n \<le> length s \<and> matches re (take n s)"
proof (induction re arbitrary: s n)
  case Nil
  then show ?case by simp
next
  case (Cons a re)
  obtain cls lo hi where a: "a = Rep cls lo hi" by (cases a)
  from Cons.prems a obtain k where k: "lo \<le> k" "k \<le> greedy cls hi s"
      and fk: "map_option (\<lambda>m. k + m) (match_seq re (drop k s)) = Some n"
    using try_down_Some by fastforce
  from fk obtain m where m: "match_seq re (drop k s) = Some m" and n: "n = k + m"
    by auto
  from k have ks: "k \<le> length s" and cls: "list_all cls (take k s)"
      and hi: "case hi of None \<Rightarrow> True | Some b \<Rightarrow> k \<le> b"
    by (simp_all add: le_greedy_iff)
  from Cons.IH [OF m] have ml: "m \<le> length (drop k s)" and mm: "matches re (take m (drop k s))"
    by simp_all
  from ml ks have nl: "n \<le> length s" by (simp add: n)
  have "take k (take n s) = take k s" by (simp add: n min_def)
  moreover have "drop k (take n s) = take m (drop k s)" by (simp add: n drop_take)
  moreover have "k \<in> {lo..length (take n s)}" using k nl by (simp add: n)
  ultimately have "matches (a # re) (take n s)"
    using cls hi mm by (auto simp: a)
  with nl show ?case by simp
qed

text \<open>Where a text that matches the pattern starts, the matcher finds a match.\<close>

lemma match_seq_complete:
  "matches re t \<Longrightarrow> match_seq re (t @ post) \<noteq> None"
proof (induction re arbitrary: t)
  case Nil
  show ?case by simp
next
  case (Cons a re)
  obtain cls lo hi where a: "a = Rep cls lo hi" by (cases a)
  from Cons.prems a obtain k where k: "lo \<le> k" "k \<le> length t"
      and hi: "case hi of None \<Rightarrow> True | Some b \<Rightarrow> k \<le> b"
      and cls: "list_all cls (take k t)" and rest: "matches re (drop k t)"
    by auto
  from k cls hi have g: "k \<le> greedy cls hi (t @ post)"
    by (simp add: le_greedy_iff)
  from Cons.IH [OF rest] k have "match_seq re (drop k (t @ post)) \<noteq> None"
    by simp
  then have fk: "map_option (\<lambda>m. k + m) (match_seq re (drop k (t @ post))) \<noteq> None"
    by simp
  show ?case
  proof
    assume "match_seq (a # re) (t @ post) = None"
    then have "try_down (\<lambda>n. map_option (\<lambda>m. n + m) (match_seq re (drop n (t @ post)))) lo
        (greedy cls hi (t @ post)) = None"
      by (simp add: a)
    from try_down_None [OF this k(1) g] fk show False by simp
  qed
qed

lemma match_EMAIL_REGEX_positive:
  "match_seq EMAIL_REGEX s = Some n \<Longrightarrow> 0 < n"
proof -
  assume m: "match_seq EMAIL_REGEX s = Some n"
  then have "matches EMAIL_REGEX (take n s)"
    by (simp add: match_seq_sound)
  then have "take n s \<noteq> []"
    by (auto simp: EMAIL_REGEX_def)
  then show ?thesis by auto
qed

lemma replace_all_quiet:
  "quiet re pre post \<Longrightarrow> replace_all re f (pre @ post) = pre @ replace_all re f post"
  by (induction pre) simp_all

lemma replace_all_match:
  "match_seq re s = Some n \<Longrightarrow> 0 < n \<Longrightarrow>
     replace_all re f s = f (take n s) @ replace_all re f (drop n s)"
proof (cases s)
  case Nil
  assume "match_seq re s = Some n" "0 < n"
  with Nil match_seq_sound [of re s n] show ?thesis by simp
next
  case (Cons c cs)
  assume "match_seq re s = Some n" "0 < n"
  then obtain k where "n = Suc k" "match_seq re (c # cs) = Some (Suc k)"
    using Cons by (cases n) simp_all
  with Cons show ?thesis by simp
qed

lemma emailToLink_Nil: "emailToLink [] = []"
  by (simp add: emailToLink_def EMAIL_REGEX_def greedy_def)

lemma emailToLink_first_match:
  "quiet EMAIL_REGEX pre (e @ post) \<Longrightarrow> match_seq EMAIL_REGEX (e @ post) = Some (length e) \<Longrightarrow>
     emailToLink (pre @ e @ post) = pre @ anchor e @ emailToLink post"
proof -
  assume q: "quiet EMAIL_REGEX pre (e @ post)"
    and m: "match_seq EMAIL_REGEX (e @ post) = Some (length e)"
  from m have "0 < length e" by (rule match_EMAIL_REGEX_positive)
  with m have "replace_all EMAIL_REGEX anchor (e @ post) =
      anchor (take (length e) (e @ post)) @ replace_all EMAIL_REGEX anchor (drop (length e) (e @ post))"
    by (rule replace_all_match)
  with q show ?thesis
    by (simp add: emailToLink_def replace_all_quiet)
qed

lemma emailToLink_no_match: "quiet EMAIL_REGEX s [] \<Longrightarrow> emailToLink s = s"
  using replace_all_quiet [of EMAIL_REGEX s "[]" anchor] emailToLink_Nil
  by (simp add: emailToLink_def)

text \<open>The pattern, spelled out: local part, \<open>@\<close>, domain, a dot, and at least two letters.\<close>

lemma matches_Cons:
  "matches (Rep cls lo hi # re) s \<longleftrightarrow>
     (\<exists>n. lo \<le> n \<and> n \<le> length s \<and> (case hi of None \<Rightarrow> True | Some m \<Rightarrow> n \<le> m)
        \<and> list_all cls (take n s) \<and> matches re (drop n s))"
  by auto

lemma matches_one_char:
  "matches (Rep (is_char d) 1 (Some 1) # re) s \<longleftrightarrow> (\<exists>t. s = d # t \<and> matches re t)"
proof
  assume "matches (Rep (is_char d) 1 (Some 1) # re) s"
  then obtain n where n: "1 \<le> n" "n \<le> length s" "n \<le> 1"
      "list_all (is_char d) (take n s)" "matches re (drop n s)"
    unfolding matches_Cons by auto
  then have "n = 1" by simp
  with n show "\<exists>t. s = d # t \<and> matches re t"
    by (cases s) (auto simp: is_char_def)
next
  assume "\<exists>t. s = d # t \<and> matches re t"
  then obtain t where "s = d # t" "matches re t" by blast
  then show "matches (Rep (is_char d) 1 (Some 1) # re) s"
    unfolding matches_Cons by (intro exI [of _ 1]) (simp add: is_char_def)
qed

lemma matches_run:
  "matches (Rep cls lo None # re) s \<longleftrightarrow>
     (\<exists>u t. s = u @ t \<and> lo \<le> length u \<and> list_all cls u \<and> matches re t)"
proof
  assume "matches (Rep cls lo None # re) s"
  then obtain n where n: "lo \<le> n" "n \<le> length s" "list_all cls (take n s)"
      "matches re (drop n s)"
    unfolding matches_Cons by auto
  have "s = take n s @ drop n s" by simp
  moreover have "lo \<le> length (take n s)" using n by simp
  ultimately show "\<exists>u t. s = u @ t \<and> lo \<le> length u \<and> list_all cls u \<and> matches re t"
    using n by blast
next
  assume "\<exists>u t. s = u @ t \<and> lo \<le> length u \<and> list_all cls u \<and> matches re t"
  then obtain u t where "s = u @ t" "lo \<le> length u" "list_all cls u" "matches re t"
    by blast
  then show "matches (Rep cls lo None # re) s"
    unfolding matches_Cons by (intro exI [of _ "length u"]) simp
qed

lemma matches_EMAIL_REGEX_shape:
  "matches EMAIL_REGEX e \<longleftrightarrow>
     (\<exists>name host tld. e = name @ ''@'' @ host @ ''.'' @ tld
        \<and> name \<noteq> [] \<and> list_all local_class name
        \<and> host \<noteq> [] \<and> list_all domain_class host
        \<and> 2 \<le> length tld \<and> list_all is_alpha tld)"
  (is "?L \<longleftrightarrow> ?R")
proof
  define r4 where "r4 = [Rep is_alpha 2 None]"
  define r3 where "r3 = Rep (is_char CHR ''.'') 1 (Some 1) # r4"
  define r2 where "r2 = Rep domain_class 1 None # r3"
  define r1 where "r1 = Rep (is_char CHR ''@'') 1 (Some 1) # r2"
  assume ?L
  then have "matches (Rep local_class 1 None # r1) e"
    by (simp only: EMAIL_REGEX_def r1_def r2_def r3_def r4_def)
  then obtain name t1 where name: "e = name @ t1" "1 \<le> length name" "list_all local_class name"
      and t1: "matches r1 t1"
    unfolding matches_run by blast
  from t1 obtain t2 where t2: "t1 = CHR ''@'' # t2" "matches r2 t2"
    unfolding r1_def matches_one_char by blast
  from t2 obtain host t3 where host: "t2 = host @ t3" "1 \<le> length host" "list_all domain_class host"
      and t3: "matches r3 t3"
    unfolding r2_def matches_run by blast
  from t3 obtain t4 where t4: "t3 = CHR ''.'' # t4" "matches r4 t4"
    unfolding r3_def matches_one_char by blast
  from t4 obtain tld t5 where tld: "t4 = tld @ t5" "2 \<le> length tld" "list_all is_alpha tld"
      and t5: "matches [] t5"
    unfolding r4_def matches_run by blast
  from t5 have "t5 = []" by simp
  with name t2 host t4 tld have "e = name @ ''@'' @ host @ ''.'' @ tld"
    by simp
  moreover from name have "name \<noteq> []" by auto
  moreover from host have "host \<noteq> []" by auto
  ultimately show ?R
    using name host tld by blast
next
  assume ?R
  then obtain name host tld where e: "e = name @ ''@'' @ host @ ''.'' @ tld"
      and name: "name \<noteq> []" "list_all local_class name"
      and host: "host \<noteq> []" "list_all domain_class host"
      and tld: "2 \<le> length tld" "list_all is_alpha tld"
    by blast
  have "matches [] []" by simp
  moreover have "tld = tld @ []" by simp
  ultimately have m4: "matches [Rep is_alpha 2 None] tld"
    using tld unfolding matches_run by blast
  then have m3: "matches [Rep (is_char CHR ''.'') 1 (Some 1), Rep is_alpha 2 None]
      (CHR ''.'' # tld)"
    unfolding matches_one_char by blast
  from host have "1 \<le> length host" by (simp add: Suc_le_eq)
  with m3 host have m2: "matches [Rep domain_class 1 None, Rep (is_char CHR ''.'') 1 (Some 1),
      Rep is_alpha 2 None] (host @ CHR ''.'' # tld)"
    unfolding matches_run by blast
  then have m1: "matches [Rep (is_char CHR ''@'') 1 (Some 1), Rep domain_class 1 None,
      Rep (is_char CHR ''.'') 1 (Some 1), Rep is_alpha 2 None] (CHR ''@'' # host @ CHR ''.'' # tld)"
    unfolding matches_one_char by blast
  from name have "1 \<le> length name" by (simp add: Suc_le_eq)
  with m1 name have "matches EMAIL_REGEX (name @ CHR ''@'' # host @ CHR ''.'' # tld)"
    unfolding EMAIL_REGEX_def matches_run by blast
  then show ?L by (simp add: e)
qed
text \<open>
  C7. \<open>convertToHtml\<close> applies \<open>emailToLink\<close> to the output of the markdown processor,
  as its last step. \<open>emailToLink\<close> works from left to right: the text before the first
  match of the e-mail pattern is kept as it is, the match is replaced by the anchor
  \<open><a href="mailto:email">email</a>\<close>, and the text after the match is treated the same
  way; a text in which no match starts is returned unchanged. Every match is a text of
  the form local part, \<open>@\<close>, domain, dot, two or more letters, and wherever a text of
  that form starts the pattern has a match, so the search passes over no occurrence.
\<close>

theorem convertToHtml_links_emails:
  \<open>convertToHtml markdownProcessor v = emailToLink (markdownProcessor v)
   \<and> anchor e = ''<a href="mailto:'' @ e @ ''">'' @ e @ ''</a>''
   \<and> (quiet EMAIL_REGEX pre (e @ post) \<and> match_seq EMAIL_REGEX (e @ post) = Some (length e) \<longrightarrow>
        emailToLink (pre @ e @ post) = pre @ anchor e @ emailToLink post)
   \<and> (quiet EMAIL_REGEX s [] \<longrightarrow> emailToLink s = s)
   \<and> (match_seq EMAIL_REGEX s = Some n \<longrightarrow>
        n \<le> length s
        \<and> (\<exists>name host tld. take n s = name @ ''@'' @ host @ ''.'' @ tld
              \<and> name \<noteq> [] \<and> list_all local_class name
              \<and> host \<noteq> [] \<and> list_all domain_class host
              \<and> 2 \<le> length tld \<and> list_all is_alpha tld))
   \<and> (name \<noteq> [] \<and> list_all local_class name \<and> host \<noteq> [] \<and> list_all domain_class host
        \<and> 2 \<le> length tld \<and> list_all is_alpha tld \<longrightarrow>
        match_seq EMAIL_REGEX ((name @ ''@'' @ host @ ''.'' @ tld) @ rest) \<noteq> None)\<close>
proof (intro conjI impI)
  show "convertToHtml markdownProcessor v = emailToLink (markdownProcessor v)"
    by (simp add: convertToHtml_def)
  show \<open>anchor e = ''<a href="mailto:'' @ e @ ''">'' @ e @ ''</a>''\<close>
    by (simp add: anchor_def)
next
  assume "quiet EMAIL_REGEX pre (e @ post) \<and> match_seq EMAIL_REGEX (e @ post) = Some (length e)"
  then show "emailToLink (pre @ e @ post) = pre @ anchor e @ emailToLink post"
    by (simp add: emailToLink_first_match)
next
  assume "quiet EMAIL_REGEX s []"
  then show "emailToLink s = s" by (rule emailToLink_no_match)
next
  assume m: "match_seq EMAIL_REGEX s = Some n"
  then show "n \<le> length s" by (simp add: match_seq_sound)
  from m have "matches EMAIL_REGEX (take n s)" by (simp add: match_seq_sound)
  then show "\<exists>name host tld. take n s = name @ ''@'' @ host @ ''.'' @ tld
              \<and> name \<noteq> [] \<and> list_all local_class name
              \<and> host \<noteq> [] \<and> list_all domain_class host
              \<and> 2 \<le> length tld \<and> list_all is_alpha tld"
    by (simp only: matches_EMAIL_REGEX_shape)
next
  assume "name \<noteq> [] \<and> list_all local_class name \<and> host \<noteq> [] \<and> list_all domain_class host
        \<and> 2 \<le> length tld \<and> list_all is_alpha tld"
  then have "matches EMAIL_REGEX (name @ ''@'' @ host @ ''.'' @ tld)"
    unfolding matches_EMAIL_REGEX_shape by blast
  then show "match_seq EMAIL_REGEX ((name @ ''@'' @ host @ ''.'' @ tld) @ rest) \<noteq> None"
    by (rule match_seq_complete)
qed

theorem convertToHtml_links_emails_witness:
  \<open>emailToLink ''mail a@b.com.x now'' = ''mail <a href="mailto:a@b.com">a@b.com</a>.x now''
   \<and> emailToLink ''no address: a@b.c'' = ''no address: a@b.c''
   \<and> match_seq EMAIL_REGEX ''x.y+z@foo-bar.co.uk!'' \<noteq> None
   \<and> (\<exists>name host tld. ''a@b.com'' = name @ ''@'' @ host @ ''.'' @ tld
         \<and> name \<noteq> [] \<and> list_all local_class name
         \<and> host \<noteq> [] \<and> list_all domain_class host
         \<and> 2 \<le> length tld \<and> list_all is_alpha tld)\<close>
proof -
  have m7: "match_seq EMAIL_REGEX ''a@b.com.x now'' = Some 7"
    by code_simp
  have q: "quiet EMAIL_REGEX ''mail '' (''a@b.com'' @ ''.x now'')"
    by code_simp
  have m: "match_seq EMAIL_REGEX (''a@b.com'' @ ''.x now'') = Some (length ''a@b.com'')"
    by code_simp
  have q2: "quiet EMAIL_REGEX ''.x now'' []"
    by code_simp
  have q3: "quiet EMAIL_REGEX ''no address: a@b.c'' []"
    by code_simp
  have c: "list_all local_class ''x.y+z'' \<and> list_all domain_class ''foo-bar.co''
      \<and> list_all is_alpha ''uk''"
    by code_simp
  show ?thesis
    using convertToHtml_links_emails
      [where pre = "''mail ''" and e = "''a@b.com''" and post = "''.x now''"
        and s = "''.x now''"]
      convertToHtml_links_emails [where s = "''no address: a@b.c''"]
      convertToHtml_links_emails
      [where name = "''x.y+z''" and host = "''foo-bar.co''" and tld = "''uk''" and rest = "''!''"]
      convertToHtml_links_emails [where s = "''a@b.com.x now''" and n = 7]
      q m q2 q3 c m7
    by (simp add: anchor_def)
qed

end
